theory Spec2Isabelle
  imports Main "HOL-Library.Word"
begin

unbundle bit_operations_syntax

section \<open>FrFTL: the flash translation layer of radio/src/thirdparty/frftl/frftl.cpp\<close>

text \<open>
  A shallow embedding of frftl.cpp. Machine integers are words of the width the C code
  declares (\<open>int16_t\<close> fields are \<open>16 word\<close> read with \<open>sint\<close>, \<open>uint16_t\<close>
  with \<open>uint\<close>/\<open>unat\<close>). A 4096-byte page is a store \<open>nat \<Rightarrow> 8 word\<close> of which the
  addresses 0..4095 are used; the \<open>Page\<close> union of the source (raw bytes and translation
  table over the same memory) is modelled by decoding the packed little-endian structs
  from the bytes. The FTL handle is a record that also carries the four HAL callbacks,
  the state of the flash device they act on, and a log of the erase and program calls
  issued so far. Undefined behaviour of the C code (dereferencing a NULL buffer, using an
  uninitialised \<open>PageInfo\<close>) is the outcome \<open>UB\<close>.

  frftl.h is not among the sources: the field types of \<open>FrFTL\<close> are taken from the way
  frftl.cpp uses them (page numbers and counts are copied to and from \<open>uint16_t\<close>
  locals, \<open>pageBufferSize\<close> is compared with \<open>uint8_t\<close> counters,
  \<open>usableSectorCount\<close> with \<open>uint32_t\<close> sector numbers). The bookkeeping field
  \<open>memoryUsed\<close> is left out.
\<close>

subsection \<open>Constants and types\<close>

abbreviation (input) SECTOR_SIZE :: nat where "SECTOR_SIZE \<equiv> 512"
abbreviation (input) PAGE_SIZE :: nat where "PAGE_SIZE \<equiv> 4096"
abbreviation (input) SECTORS_PER_PAGE :: nat where "SECTORS_PER_PAGE \<equiv> 8"
abbreviation (input) TT_PAGE_MAGIC :: "32 word" where "TT_PAGE_MAGIC \<equiv> 0xEF87364A"
abbreviation (input) TT_RECORDS_PER_PAGE :: nat where "TT_RECORDS_PER_PAGE \<equiv> 1024"
abbreviation (input) BUFFER_SIZE_MULTIPLIER :: nat where "BUFFER_SIZE_MULTIPLIER \<equiv> 4"
abbreviation (input) RESERVED_PAGES_MULTIPLIER :: nat where "RESERVED_PAGES_MULTIPLIER \<equiv> 16"

datatype PhysicalPageState = UNKNOWN | USED | ERASE_REQUIRED | ERASED

datatype ProgramMode = NONE | PROGRAM | ERASE_PROGRAM | RELOCATE_ERASE_PROGRAM

type_synonym Page = "nat \<Rightarrow> 8 word"

text \<open>\<open>PageInfo\<close>: packed, three bytes (\<open>int16_t physicalPageNo; uint8_t sectStatus\<close>).\<close>

record PageInfo =
  infoPhysicalPageNo :: "16 word"
  sectStatus :: "8 word"

record PageBuffer =
  logicalPageNo :: "16 word"
  physicalPageNo :: "16 word"
  lru :: "8 word"
  lock :: bool
  pMode :: ProgramMode
  page :: Page

text \<open>
  The erase and program calls handed to the HAL. \<open>FlashProgram addr l\<close> carries, beside
  the byte address, the logical page number \<open>l\<close> of the page image being programmed
  (the \<open>logicalPageNo\<close> of the buffer, read as \<open>int16_t\<close>); the tag is an annotation
  of the log, not an argument of the call.
\<close>

datatype HalCall = FlashErase "32 word" | FlashProgram "32 word" int

text \<open>
  The handle. \<open>flashRead dev addr len\<close> returns the callback's result and the bytes
  the destination holds afterwards; \<open>flashProgram\<close> and \<open>flashErase\<close> return the
  result and the new device state; reads and \<open>isFlashErased\<close> leave the device as it
  is.
\<close>

record 'd FrFTL =
  flashRead :: "'d \<Rightarrow> 32 word \<Rightarrow> nat \<Rightarrow> bool \<times> Page"
  flashProgram :: "'d \<Rightarrow> 32 word \<Rightarrow> Page \<Rightarrow> bool \<times> 'd"
  flashErase :: "'d \<Rightarrow> 32 word \<Rightarrow> bool \<times> 'd"
  isFlashErased :: "'d \<Rightarrow> 32 word \<Rightarrow> bool"
  device :: 'd
  halLog :: "HalCall list"
  mttPhysicalPageNo :: "16 word"
  usableSectorCount :: "32 word"
  physicalPageCount :: "16 word"
  ttPageCount :: "16 word"
  writeFrontier :: "16 word"
  pageBuffer :: "PageBuffer list"
  pageBufferSize :: "8 word"
  physicalPageState :: "32 word list"
  physicalPageStateResolved :: bool

datatype 'a outcome = UB | Returns 'a

definition supportedFlashSizes :: "8 word list" where
  "supportedFlashSizes = [4, 8, 16, 32, 64, 128]"

subsection \<open>Packed little-endian fields of a page\<close>

definition le16 :: "Page \<Rightarrow> nat \<Rightarrow> 16 word" where
  "le16 d k = ucast (d k) OR push_bit 8 (ucast (d (k + 1)))"

definition le32 :: "Page \<Rightarrow> nat \<Rightarrow> 32 word" where
  "le32 d k = ucast (d k) OR push_bit 8 (ucast (d (k + 1)))
     OR push_bit 16 (ucast (d (k + 2))) OR push_bit 24 (ucast (d (k + 3)))"

definition put16 :: "Page \<Rightarrow> nat \<Rightarrow> 16 word \<Rightarrow> Page" where
  "put16 d k w = d(k := ucast w, k + 1 := ucast (drop_bit 8 w))"

definition put32 :: "Page \<Rightarrow> nat \<Rightarrow> 32 word \<Rightarrow> Page" where
  "put32 d k w = d(k := ucast w, k + 1 := ucast (drop_bit 8 w),
     k + 2 := ucast (drop_bit 16 w), k + 3 := ucast (drop_bit 24 w))"

text \<open>\<open>TransTableHeader\<close> (packed, 16 bytes) at the start of a page.\<close>

definition hdrMagicStart :: "Page \<Rightarrow> 32 word" where "hdrMagicStart d = le32 d 0"
definition hdrLogicalPageNo :: "Page \<Rightarrow> 32 word" where "hdrLogicalPageNo d = le32 d 4"
definition hdrSerial :: "Page \<Rightarrow> 32 word" where "hdrSerial d = le32 d 8"
definition hdrPadding :: "Page \<Rightarrow> 16 word" where "hdrPadding d = le16 d 12"
definition hdrCrc16 :: "Page \<Rightarrow> 16 word" where "hdrCrc16 d = le16 d 14"

text \<open>\<open>page.tt.pageInfos[recordNo]\<close>: record \<open>recordNo\<close> starts at byte \<open>16 + 3 * recordNo\<close>.\<close>

definition getPageInfo :: "Page \<Rightarrow> nat \<Rightarrow> PageInfo" where
  "getPageInfo d recordNo =
     \<lparr>infoPhysicalPageNo = le16 d (16 + 3 * recordNo), sectStatus = d (16 + 3 * recordNo + 2)\<rparr>"

definition setInfoPhysicalPageNo :: "Page \<Rightarrow> nat \<Rightarrow> 16 word \<Rightarrow> Page" where
  "setInfoPhysicalPageNo d recordNo p = put16 d (16 + 3 * recordNo) p"

definition setPageInfo :: "Page \<Rightarrow> nat \<Rightarrow> PageInfo \<Rightarrow> Page" where
  "setPageInfo d recordNo info =
     (put16 d (16 + 3 * recordNo) (infoPhysicalPageNo info))(16 + 3 * recordNo + 2 := sectStatus info)"

text \<open>\<open>memcpy(page.data + off, buf, SECTOR_SIZE)\<close> and its inverse.\<close>

definition copySectorIn :: "Page \<Rightarrow> nat \<Rightarrow> 8 word list \<Rightarrow> Page" where
  "copySectorIn d off buf = (\<lambda>k. if off \<le> k \<and> k < off + SECTOR_SIZE then buf ! (k - off) else d k)"

definition copySectorOut :: "Page \<Rightarrow> nat \<Rightarrow> 8 word list" where
  "copySectorOut d off = map (\<lambda>k. d (off + k)) [0..<SECTOR_SIZE]"

subsection \<open>CRC of a translation-table header\<close>

text \<open>
  Modelled from the spec: \<open>crc16(CRC_1021, ...)\<close> of crc.h is not among the sources. The
  spec gives a CRC-16 with polynomial 0x1021 and initial value 0xFFFF; the bytes are
  taken most significant bit first, with no reflection and no final xor.
\<close>

definition crc16Bit :: "16 word \<Rightarrow> 16 word" where
  "crc16Bit crc = (if bit crc 15 then push_bit 1 crc XOR 0x1021 else push_bit 1 crc)"

definition crc16Byte :: "16 word \<Rightarrow> 8 word \<Rightarrow> 16 word" where
  "crc16Byte crc b = (crc16Bit ^^ 8) (crc XOR push_bit 8 (ucast b))"

definition crc16 :: "8 word list \<Rightarrow> 16 word \<Rightarrow> 16 word" where
  "crc16 buf start = foldl crc16Byte start buf"

text \<open>
  \<open>calcCRC\<close> first stores 0xFFFF in the header's padding and then takes the CRC of the
  first 14 bytes; \<open>calcCRCHeader\<close> is the header after the call, \<open>calcCRC\<close> the value
  returned.
\<close>

definition calcCRCHeader :: "Page \<Rightarrow> Page" where
  "calcCRCHeader d = put16 d 12 0xffff"

definition calcCRC :: "Page \<Rightarrow> 16 word" where
  "calcCRC d = crc16 (map (calcCRCHeader d) [0..<14]) 0xffff"

subsection \<open>Physical-page state map\<close>

fun stateCode :: "PhysicalPageState \<Rightarrow> 32 word" where
  "stateCode UNKNOWN = 0"
| "stateCode USED = 1"
| "stateCode ERASE_REQUIRED = 2"
| "stateCode ERASED = 3"

definition stateOfCode :: "32 word \<Rightarrow> PhysicalPageState" where
  "stateOfCode w = (if w = 0 then UNKNOWN else if w = 1 then USED
                    else if w = 2 then ERASE_REQUIRED else ERASED)"

text \<open>
  \<open>uint32_t idx = physicalPageNo >> 4\<close>: the \<open>int16_t\<close> is promoted to \<open>int\<close>, shifted
  arithmetically and converted to \<open>uint32_t\<close>. An index outside the array is undefined
  behaviour in C; the model reads \<open>xs ! i\<close> there (unspecified) and leaves the array
  unchanged on a write.
\<close>

definition stateIdx :: "16 word \<Rightarrow> nat" where
  "stateIdx physPageNo = unat (word_of_int (sint physPageNo div 16) :: 32 word)"

definition stateShift :: "16 word \<Rightarrow> nat" where
  "stateShift physPageNo = unat (physPageNo AND 0xf) * 2"

definition getPhysicalPageState :: "'d FrFTL \<Rightarrow> 16 word \<Rightarrow> PhysicalPageState" where
  "getPhysicalPageState ftl physPageNo =
     (let idx = stateIdx physPageNo;
          result = drop_bit (stateShift physPageNo) (physicalPageState ftl ! idx)
      in stateOfCode (result AND 0x3))"

definition setPhysicalPageState :: "'d FrFTL \<Rightarrow> 16 word \<Rightarrow> PhysicalPageState \<Rightarrow> 'd FrFTL" where
  "setPhysicalPageState ftl physPageNo state =
     (let idx = stateIdx physPageNo;
          mask = push_bit (stateShift physPageNo) (0x3 :: 32 word);
          w1 = (physicalPageState ftl ! idx) AND NOT mask;
          w2 = w1 OR push_bit (stateShift physPageNo) (stateCode state AND 0x3)
      in ftl\<lparr>physicalPageState := (physicalPageState ftl)[idx := w2]\<rparr>)"


text \<open>Byte address of a page: \<open>pageNo * PAGE_SIZE\<close> computed in \<open>int\<close> and converted to \<open>uint32_t\<close>.\<close>

definition pageAddrU :: "16 word \<Rightarrow> 32 word" where
  "pageAddrU pageNo = ucast pageNo * 4096"

definition pageAddrS :: "16 word \<Rightarrow> 32 word" where
  "pageAddrS pageNo = scast pageNo * 4096"

text \<open>\<open>idx++; if (idx >= physicalPageCount) idx = 0;\<close> on \<open>uint16_t\<close>.\<close>

definition nextPageNo :: "'d FrFTL \<Rightarrow> 16 word \<Rightarrow> 16 word" where
  "nextPageNo ftl idx = (if idx + 1 \<ge> physicalPageCount ftl then 0 else idx + 1)"

text \<open>
  The \<open>for\<close> loop of \<open>resolveUnknownState\<close>: the first argument counts the iterations
  left (\<open>physicalPageCount - i\<close>); the result says whether the loop ended early.
\<close>

fun resolveLoop :: "nat \<Rightarrow> 16 word \<Rightarrow> 16 word \<Rightarrow> 'd FrFTL \<Rightarrow> bool \<times> 'd FrFTL" where
  "resolveLoop 0 idx count ftl = (False, ftl)"
| "resolveLoop (Suc n) idx count ftl =
     (if getPhysicalPageState ftl idx = UNKNOWN then
        (let state = (if isFlashErased ftl (device ftl) (pageAddrU idx) then ERASED else ERASE_REQUIRED);
             ftl1 = setPhysicalPageState ftl idx state;
             count1 = count - 1
         in if count1 = 0 then (True, ftl1)
            else resolveLoop n (nextPageNo ftl1 idx) count1 ftl1)
      else resolveLoop n (nextPageNo ftl idx) count ftl)"

definition resolveUnknownState :: "'d FrFTL \<Rightarrow> 16 word \<Rightarrow> 'd FrFTL" where
  "resolveUnknownState ftl count =
     (if physicalPageStateResolved ftl then ftl
      else (case resolveLoop (unat (physicalPageCount ftl)) (writeFrontier ftl) count ftl of
              (earlyEnd, ftl1) \<Rightarrow>
                if \<not> earlyEnd then ftl1\<lparr>physicalPageStateResolved := True\<rparr> else ftl1))"

subsection \<open>Page buffer cache\<close>

text \<open>A buffer pointer \<open>pageBuffer + i\<close> is the index \<open>i\<close>; NULL is \<open>None\<close>.\<close>

definition updBuf :: "nat \<Rightarrow> (PageBuffer \<Rightarrow> PageBuffer) \<Rightarrow> 'd FrFTL \<Rightarrow> 'd FrFTL" where
  "updBuf i f ftl = ftl\<lparr>pageBuffer := (pageBuffer ftl)[i := f (pageBuffer ftl ! i)]\<rparr>"

text \<open>\<open>while (j > 0) { (pageBuffer + j)->lru = (pageBuffer + j - 1)->lru; j--; }\<close>\<close>

fun lruShift :: "nat \<Rightarrow> PageBuffer list \<Rightarrow> PageBuffer list" where
  "lruShift 0 bufs = bufs"
| "lruShift (Suc j) bufs = lruShift j (bufs[Suc j := (bufs ! Suc j)\<lparr>lru := lru (bufs ! j)\<rparr>])"

text \<open>
  The ``Update LRU'' loop that \<open>findPhysicalPageInBuffer\<close> and
  \<open>loadPhysicalPageInBuffer\<close> both contain: the first rank \<open>j > 0\<close> that holds buffer
  \<open>i\<close> is moved to rank 0.
\<close>

definition updateLRU :: "nat \<Rightarrow> 'd FrFTL \<Rightarrow> 'd FrFTL" where
  "updateLRU i ftl =
     (case find (\<lambda>j. lru (pageBuffer ftl ! j) = of_nat i \<and> j > 0) [0..<unat (pageBufferSize ftl)] of
        None \<Rightarrow> ftl
      | Some j \<Rightarrow>
          (let bufs = lruShift j (pageBuffer ftl)
           in ftl\<lparr>pageBuffer := bufs[0 := (bufs ! 0)\<lparr>lru := of_nat i\<rparr>]\<rparr>))"

text \<open>The comparison \<open>iBuffer->physicalPageNo == physicalPageNo\<close> is between an \<open>int16_t\<close> and a \<open>uint16_t\<close>, both promoted to \<open>int\<close>.\<close>

definition findPhysicalPageInBuffer :: "'d FrFTL \<Rightarrow> 16 word \<Rightarrow> nat option \<times> 'd FrFTL" where
  "findPhysicalPageInBuffer ftl physPageNo =
     (case find (\<lambda>i. sint (physicalPageNo (pageBuffer ftl ! i)) = uint physPageNo)
             [0..<unat (pageBufferSize ftl)] of
        None \<Rightarrow> (None, ftl)
      | Some i \<Rightarrow> (Some i, updateLRU i ftl))"

text \<open>
  The scan \<open>for (int i = pageBufferSize - 1; i >= 0; i--)\<close> for the least recently used
  unlocked buffer. When every rank holds a locked buffer the function returns NULL.
  (With no buffer at all the C code would test a NULL pointer; the model returns NULL.)
\<close>

definition findUnlockedBuffer :: "'d FrFTL \<Rightarrow> nat option" where
  "findUnlockedBuffer ftl =
     (case find (\<lambda>i. \<not> lock (pageBuffer ftl ! unat (lru (pageBuffer ftl ! i))))
             (rev [0..<unat (pageBufferSize ftl)]) of
        None \<Rightarrow> None
      | Some i \<Rightarrow> Some (unat (lru (pageBuffer ftl ! i))))"

definition loadPhysicalPageInBuffer :: "'d FrFTL \<Rightarrow> 16 word \<Rightarrow> 16 word \<Rightarrow> nat option \<times> 'd FrFTL" where
  "loadPhysicalPageInBuffer ftl logPageNo physPageNo =
     (case findPhysicalPageInBuffer ftl physPageNo of
        (Some i, ftl1) \<Rightarrow> (Some i, ftl1)
      | (None, ftl1) \<Rightarrow>
          (case findUnlockedBuffer ftl1 of
             None \<Rightarrow> (None, ftl1)
           | Some bufferIdx \<Rightarrow>
               (let ftl2 = updBuf bufferIdx (\<lambda>b. b\<lparr>physicalPageNo := - 1\<rparr>) ftl1;
                    r = flashRead ftl2 (device ftl2) (pageAddrU physPageNo) PAGE_SIZE;
                    ftl3 = updBuf bufferIdx (\<lambda>b. b\<lparr>page := snd r\<rparr>) ftl2
                in if \<not> fst r then (None, ftl3)
                   else (Some bufferIdx,
                         updateLRU bufferIdx
                           (updBuf bufferIdx (\<lambda>b. b\<lparr>logicalPageNo := logPageNo,
                               physicalPageNo := physPageNo, lock := False, pMode := NONE\<rparr>) ftl3)))))"

definition initPhysicalPageInBuffer :: "'d FrFTL \<Rightarrow> 16 word \<Rightarrow> 16 word \<Rightarrow> nat option \<times> 'd FrFTL" where
  "initPhysicalPageInBuffer ftl logPageNo physPageNo =
     (case findPhysicalPageInBuffer ftl physPageNo of
        (Some i, ftl1) \<Rightarrow> (Some i, ftl1)
      | (None, ftl1) \<Rightarrow>
          (case findUnlockedBuffer ftl1 of
             None \<Rightarrow> (None, ftl1)
           | Some bufferIdx \<Rightarrow>
               (Some bufferIdx,
                updBuf bufferIdx (\<lambda>b. b\<lparr>logicalPageNo := logPageNo, physicalPageNo := physPageNo,
                    lock := True, pMode := ERASE_PROGRAM, page := (\<lambda>k. 0xff)\<rparr>) ftl1)))"

fun hasFreeLoop :: "PageBuffer list \<Rightarrow> nat \<Rightarrow> nat \<Rightarrow> bool" where
  "hasFreeLoop [] bufferCount freeBufferFound = False"
| "hasFreeLoop (b # bs) bufferCount freeBufferFound =
     (if \<not> lock b then
        (if freeBufferFound + 1 \<ge> bufferCount then True
         else hasFreeLoop bs bufferCount (freeBufferFound + 1))
      else hasFreeLoop bs bufferCount freeBufferFound)"

definition hasFreeBuffers :: "'d FrFTL \<Rightarrow> nat \<Rightarrow> bool" where
  "hasFreeBuffers ftl bufferCount =
     hasFreeLoop (take (unat (pageBufferSize ftl)) (pageBuffer ftl)) bufferCount 0"

subsection \<open>Translation-table engine\<close>

definition readPhysicalSector :: "'d FrFTL \<Rightarrow> 16 word \<Rightarrow> 16 word \<Rightarrow> nat \<Rightarrow> (8 word list) option \<times> 'd FrFTL" where
  "readPhysicalSector ftl logPageNo physPageNo pageSectorNo =
     (case loadPhysicalPageInBuffer ftl logPageNo physPageNo of
        (Some i, ftl1) \<Rightarrow> (Some (copySectorOut (page (pageBuffer ftl1 ! i)) (pageSectorNo * SECTOR_SIZE)), ftl1)
      | (None, ftl1) \<Rightarrow> (None, ftl1))"

definition readPhysicalPageInfo :: "'d FrFTL \<Rightarrow> 16 word \<Rightarrow> 16 word \<Rightarrow> nat \<Rightarrow> PageInfo option \<times> 'd FrFTL" where
  "readPhysicalPageInfo ftl logPageNo physPageNo recordNo =
     (case loadPhysicalPageInBuffer ftl logPageNo physPageNo of
        (Some i, ftl1) \<Rightarrow> (Some (getPageInfo (page (pageBuffer ftl1 ! i)) recordNo), ftl1)
      | (None, ftl1) \<Rightarrow> (None, ftl1))"

definition readPageInfo :: "'d FrFTL \<Rightarrow> 16 word \<Rightarrow> PageInfo option \<times> 'd FrFTL" where
  "readPageInfo ftl logPageNo =
     (if logPageNo < 1024 then
        readPhysicalPageInfo ftl 0 (mttPhysicalPageNo ftl) (unat logPageNo)
      else
        (let sttLogicalPageNo = logPageNo div 1024
         in case readPhysicalPageInfo ftl 0 (mttPhysicalPageNo ftl) (unat sttLogicalPageNo) of
              (None, ftl1) \<Rightarrow> (None, ftl1)
            | (Some secondaryTTInfo, ftl1) \<Rightarrow>
                readPhysicalPageInfo ftl1 sttLogicalPageNo (infoPhysicalPageNo secondaryTTInfo)
                  (unat (logPageNo mod 1024))))"

definition updatePhysicalPageInfo :: "'d FrFTL \<Rightarrow> PageInfo \<Rightarrow> 16 word \<Rightarrow> 16 word \<Rightarrow> nat \<Rightarrow> bool \<times> 'd FrFTL" where
  "updatePhysicalPageInfo ftl pageInfo logPageNo physPageNo recordNo =
     (case loadPhysicalPageInBuffer ftl logPageNo physPageNo of
        (None, ftl1) \<Rightarrow> (False, ftl1)
      | (Some i, ftl1) \<Rightarrow>
          (True, updBuf i (\<lambda>b. b\<lparr>lock := True,
                                pMode := (if pMode b = NONE then PROGRAM else pMode b),
                                page := setPageInfo (page b) recordNo pageInfo\<rparr>) ftl1))"

definition updatePageInfo :: "'d FrFTL \<Rightarrow> PageInfo \<Rightarrow> 16 word \<Rightarrow> bool \<times> 'd FrFTL" where
  "updatePageInfo ftl pageInfo logPageNo =
     (if logPageNo < 1024 then
        updatePhysicalPageInfo ftl pageInfo 0 (mttPhysicalPageNo ftl) (unat logPageNo)
      else
        (let sttLogicalPageNo = logPageNo div 1024
         in case readPhysicalPageInfo ftl 0 (mttPhysicalPageNo ftl) (unat sttLogicalPageNo) of
              (None, ftl1) \<Rightarrow> (False, ftl1)
            | (Some secondaryTTInfo, ftl1) \<Rightarrow>
                updatePhysicalPageInfo ftl1 pageInfo sttLogicalPageNo
                  (infoPhysicalPageNo secondaryTTInfo) (unat (logPageNo mod 1024))))"

subsection \<open>Allocator and write frontier\<close>

definition advanceFrontier :: "'d FrFTL \<Rightarrow> 'd FrFTL" where
  "advanceFrontier ftl = ftl\<lparr>writeFrontier := nextPageNo ftl (writeFrontier ftl)\<rparr>"

text \<open>
  The \<open>while\<close> loop of \<open>allocatePhysicalPage\<close>; the result is False when the loop
  returns -1 (``BUG''). \<open>lookupCount\<close> is a \<open>uint16_t\<close> that stays below 65536 for every
  page count \<open>ftlInit\<close> can set (at most 32768), so it is counted in \<open>nat\<close>.
\<close>

function allocateLoop :: "nat \<Rightarrow> 'd FrFTL \<Rightarrow> bool \<times> 'd FrFTL" where
  "allocateLoop lookupCount ftl =
     (if getPhysicalPageState ftl (writeFrontier ftl) = USED then
        (let ftl1 = advanceFrontier ftl
         in if lookupCount + 1 > unat (physicalPageCount ftl1) then (False, ftl1)
            else allocateLoop (lookupCount + 1) ftl1)
      else (True, ftl))"
  by pat_completeness auto
termination
  by (relation "measure (\<lambda>(lookupCount, ftl). unat (physicalPageCount ftl) + 1 - lookupCount)")
     (auto simp: advanceFrontier_def)

text \<open>The result is the \<open>int16_t\<close> the function returns (\<open>- 1\<close> for ``BUG'').\<close>

definition allocatePhysicalPage :: "'d FrFTL \<Rightarrow> 16 word \<times> 'd FrFTL" where
  "allocatePhysicalPage ftl =
     (case allocateLoop 0 ftl of
        (False, ftl1) \<Rightarrow> (- 1, ftl1)
      | (True, ftl1) \<Rightarrow> (writeFrontier ftl1, advanceFrontier ftl1))"

subsection \<open>Program engine\<close>

definition callFlashErase :: "'d FrFTL \<Rightarrow> 32 word \<Rightarrow> bool \<times> 'd FrFTL" where
  "callFlashErase ftl addr =
     (let r = flashErase ftl (device ftl) addr
      in (fst r, ftl\<lparr>device := snd r, halLog := halLog ftl @ [FlashErase addr]\<rparr>))"

definition callFlashProgram :: "'d FrFTL \<Rightarrow> 32 word \<Rightarrow> int \<Rightarrow> Page \<Rightarrow> bool \<times> 'd FrFTL" where
  "callFlashProgram ftl addr tag d =
     (let r = flashProgram ftl (device ftl) addr d
      in (fst r, ftl\<lparr>device := snd r, halLog := halLog ftl @ [FlashProgram addr tag]\<rparr>))"

text \<open>``Do erase on the fly'': erase \<open>addr\<close> when the state of page \<open>checked\<close> is not ERASED.\<close>

definition eraseOnTheFly :: "'d FrFTL \<Rightarrow> 16 word \<Rightarrow> 32 word \<Rightarrow> bool \<times> 'd FrFTL" where
  "eraseOnTheFly ftl checked addr =
     (if getPhysicalPageState ftl checked \<noteq> ERASED then callFlashErase ftl addr else (True, ftl))"

text \<open>
  The TT-page part of the RELOCATE_ERASE_PROGRAM case: record 0 of the MTT, the serial
  and the CRC of the buffer's page.
\<close>

definition relocateHeader :: "'d FrFTL \<Rightarrow> PageBuffer \<Rightarrow> 16 word \<Rightarrow> Page" where
  "relocateHeader ftl b newPhysicalPageNo =
     (if sint (logicalPageNo b) < uint (ttPageCount ftl) then
        (let d1 = (if logicalPageNo b = 0 then setInfoPhysicalPageNo (page b) 0 newPhysicalPageNo
                   else page b);
             d2 = put32 d1 8 (hdrSerial d1 + 1)
         in put16 (calcCRCHeader d2) 14 (calcCRC d2))
      else page b)"

definition programPageInBuffer :: "'d FrFTL \<Rightarrow> nat \<Rightarrow> bool \<times> 'd FrFTL" where
  "programPageInBuffer ftl i =
     (let b = pageBuffer ftl ! i; tag = sint (logicalPageNo b) in
      case pMode b of
        NONE \<Rightarrow> (True, ftl)
      | PROGRAM \<Rightarrow>
          (case callFlashProgram ftl (pageAddrS (physicalPageNo b)) tag (page b) of
             (False, ftl1) \<Rightarrow> (False, ftl1)
           | (True, ftl1) \<Rightarrow> (True, setPhysicalPageState ftl1 (physicalPageNo b) USED))
      | ERASE_PROGRAM \<Rightarrow>
          (let addr = pageAddrS (physicalPageNo b) in
           case eraseOnTheFly ftl (physicalPageNo b) addr of
             (False, ftl1) \<Rightarrow> (False, ftl1)
           | (True, ftl1) \<Rightarrow>
               (case callFlashProgram ftl1 addr tag (page b) of
                  (False, ftl2) \<Rightarrow> (False, ftl2)
                | (True, ftl2) \<Rightarrow> (True, setPhysicalPageState ftl2 (physicalPageNo b) USED)))
      | RELOCATE_ERASE_PROGRAM \<Rightarrow>
          (case allocatePhysicalPage ftl of
             (newPhysicalPageNo, ftl1) \<Rightarrow>
               if sint newPhysicalPageNo < 0 then (False, ftl1)
               else
                 (let d = relocateHeader ftl1 b newPhysicalPageNo;
                      ftl2 = updBuf i (\<lambda>b. b\<lparr>page := d\<rparr>) ftl1;
                      addr = pageAddrS newPhysicalPageNo
                  in case eraseOnTheFly ftl2 (physicalPageNo b) addr of
                       (False, ftl3) \<Rightarrow> (False, ftl3)
                     | (True, ftl3) \<Rightarrow>
                         (case callFlashProgram ftl3 addr tag d of
                            (False, ftl4) \<Rightarrow> (False, ftl4)
                          | (True, ftl4) \<Rightarrow>
                              (let ftl5 = setPhysicalPageState ftl4 (physicalPageNo b) ERASE_REQUIRED;
                                   ftl6 = updBuf i (\<lambda>b. b\<lparr>physicalPageNo := newPhysicalPageNo\<rparr>) ftl5;
                                   ftl7 = setPhysicalPageState ftl6 newPhysicalPageNo USED
                               in (True, if logicalPageNo b = 0
                                         then ftl7\<lparr>mttPhysicalPageNo := newPhysicalPageNo\<rparr>
                                         else ftl7))))))"


subsection \<open>Sync\<close>

definition unlockBuffer :: "nat \<Rightarrow> 'd FrFTL \<Rightarrow> 'd FrFTL" where
  "unlockBuffer i ftl = updBuf i (\<lambda>b. b\<lparr>lock := False, pMode := NONE\<rparr>) ftl"

text \<open>``First program data pages'': the first loop of \<open>ftlSync\<close> over the buffer indices.\<close>

fun syncDataPages :: "nat list \<Rightarrow> 'd FrFTL \<Rightarrow> bool \<times> 'd FrFTL" where
  "syncDataPages [] ftl = (True, ftl)"
| "syncDataPages (i # is) ftl =
     (if lock (pageBuffer ftl ! i)
         \<and> sint (logicalPageNo (pageBuffer ftl ! i)) \<ge> uint (ttPageCount ftl) then
        (case programPageInBuffer ftl i of
           (False, ftl1) \<Rightarrow> (False, ftl1)
         | (True, ftl1) \<Rightarrow>
             (case readPageInfo ftl1 (logicalPageNo (pageBuffer ftl1 ! i)) of
                (None, ftl2) \<Rightarrow> (False, ftl2)
              | (Some pageInfo, ftl2) \<Rightarrow>
                  (case updatePageInfo ftl2
                          (pageInfo\<lparr>infoPhysicalPageNo := physicalPageNo (pageBuffer ftl2 ! i)\<rparr>)
                          (logicalPageNo (pageBuffer ftl2 ! i)) of
                     (False, ftl3) \<Rightarrow> (False, ftl3)
                   | (True, ftl3) \<Rightarrow> syncDataPages is (unlockBuffer i ftl3))))
      else syncDataPages is ftl)"

text \<open>``Second program STT pages'': the second loop, with the index of \<open>mttBuffer\<close>.\<close>

fun syncSTTPages :: "nat \<Rightarrow> nat list \<Rightarrow> 'd FrFTL \<Rightarrow> bool \<times> 'd FrFTL" where
  "syncSTTPages mttBuffer [] ftl = (True, ftl)"
| "syncSTTPages mttBuffer (i # is) ftl =
     (if lock (pageBuffer ftl ! i)
         \<and> sint (logicalPageNo (pageBuffer ftl ! i)) > 0
         \<and> sint (logicalPageNo (pageBuffer ftl ! i)) < uint (ttPageCount ftl) then
        (case programPageInBuffer ftl i of
           (False, ftl1) \<Rightarrow> (False, ftl1)
         | (True, ftl1) \<Rightarrow>
             (let cur = pageBuffer ftl1 ! i;
                  ftl2 = updBuf mttBuffer (\<lambda>b. b\<lparr>page := setInfoPhysicalPageNo (page b)
                             (nat (sint (logicalPageNo cur))) (physicalPageNo cur)\<rparr>) ftl1
              in syncSTTPages mttBuffer is (unlockBuffer i ftl2)))
      else syncSTTPages mttBuffer is ftl)"

text \<open>``Finally program MTT page''.\<close>

definition syncMTTPage :: "nat \<Rightarrow> 'd FrFTL \<Rightarrow> bool \<times> 'd FrFTL" where
  "syncMTTPage mttBuffer ftl =
     (if lock (pageBuffer ftl ! mttBuffer) then
        (case programPageInBuffer ftl mttBuffer of
           (False, ftl1) \<Rightarrow> (False, ftl1)
         | (True, ftl1) \<Rightarrow> (True, unlockBuffer mttBuffer ftl1))
      else (True, ftl))"

definition ftlSync :: "'d FrFTL \<Rightarrow> bool \<times> 'd FrFTL" where
  "ftlSync ftl =
     (case syncDataPages [0..<unat (pageBufferSize ftl)] ftl of
        (False, ftl1) \<Rightarrow> (False, ftl1)
      | (True, ftl1) \<Rightarrow>
          (case loadPhysicalPageInBuffer ftl1 0 (mttPhysicalPageNo ftl1) of
             (None, ftl2) \<Rightarrow> (False, ftl2)
           | (Some mttBuffer, ftl2) \<Rightarrow>
               (case syncSTTPages mttBuffer [0..<unat (pageBufferSize ftl2)] ftl2 of
                  (False, ftl3) \<Rightarrow> (False, ftl3)
                | (True, ftl3) \<Rightarrow> syncMTTPage mttBuffer ftl3)))"

subsection \<open>Sector write and read\<close>

text \<open>\<open>uint16_t logicalPageNo = sectorNo / SECTORS_PER_PAGE + ftl->ttPageCount\<close>, computed in 32 bits and truncated.\<close>

definition sectorLogicalPageNo :: "'d FrFTL \<Rightarrow> 32 word \<Rightarrow> 16 word" where
  "sectorLogicalPageNo ftl sectorNo = ucast (sectorNo div 8 + ucast (ttPageCount ftl))"

definition sectorPageSectorNo :: "32 word \<Rightarrow> nat" where
  "sectorPageSectorNo sectorNo = unat (sectorNo mod 8)"

definition sectMask :: "nat \<Rightarrow> 8 word" where
  "sectMask pageSectorNo = push_bit pageSectorNo 1"

text \<open>
  The branch ``Sector already written, use replace write'' of \<open>ftlWriteSector\<close>. The
  buffers that \<open>loadPhysicalPageInBuffer\<close> returns for the TT page and for the MTT are
  used without a NULL check: a NULL there is undefined behaviour.
\<close>

definition writeSectorReplace :: "'d FrFTL \<Rightarrow> nat \<Rightarrow> 16 word \<Rightarrow> nat \<Rightarrow> 8 word list \<Rightarrow> (bool \<times> 'd FrFTL) outcome" where
  "writeSectorReplace ftl dataBuffer logPageNo pageSectorNo buf =
     (let ftl1 = updBuf dataBuffer (\<lambda>b. b\<lparr>lock := True, pMode := RELOCATE_ERASE_PROGRAM,
                    page := copySectorIn (page b) (pageSectorNo * SECTOR_SIZE) buf\<rparr>) ftl;
          ttPageNo = logPageNo div 1024
      in case readPageInfo ftl1 ttPageNo of
           (None, ftl2) \<Rightarrow> Returns (False, ftl2)
         | (Some ttPageInfo, ftl2) \<Rightarrow>
             (case loadPhysicalPageInBuffer ftl2 ttPageNo (infoPhysicalPageNo ttPageInfo) of
                (None, ftl3) \<Rightarrow> UB
              | (Some ttBuffer, ftl3) \<Rightarrow>
                  (let ftl4 = updBuf ttBuffer (\<lambda>b. b\<lparr>lock := True, pMode := RELOCATE_ERASE_PROGRAM\<rparr>) ftl3
                   in if ttPageNo > 0 then
                        (case loadPhysicalPageInBuffer ftl4 0 (mttPhysicalPageNo ftl4) of
                           (None, ftl5) \<Rightarrow> UB
                         | (Some mttBuffer, ftl5) \<Rightarrow>
                             Returns (True, updBuf mttBuffer
                               (\<lambda>b. b\<lparr>lock := True, pMode := RELOCATE_ERASE_PROGRAM\<rparr>) ftl5))
                      else Returns (True, ftl4))))"

text \<open>The branch ``Sector never write, append information''.\<close>

definition writeSectorAppend :: "'d FrFTL \<Rightarrow> nat \<Rightarrow> PageInfo \<Rightarrow> 16 word \<Rightarrow> nat \<Rightarrow> 8 word list \<Rightarrow> bool \<times> 'd FrFTL" where
  "writeSectorAppend ftl dataBuffer pageInfo logPageNo pageSectorNo buf =
     (case updatePageInfo ftl
             (pageInfo\<lparr>sectStatus := sectStatus pageInfo AND NOT (sectMask pageSectorNo)\<rparr>) logPageNo of
        (False, ftl1) \<Rightarrow> (False, ftl1)
      | (True, ftl1) \<Rightarrow>
          (True, updBuf dataBuffer (\<lambda>b. b\<lparr>lock := True,
                     pMode := (if pMode b = NONE then PROGRAM else pMode b),
                     page := copySectorIn (page b) (pageSectorNo * SECTOR_SIZE) buf\<rparr>) ftl1))"

text \<open>
  ``Allocate new physical page for uninitialized logical page'', or load the page the
  page info names: the result is the data buffer and the page info to go on with.
\<close>

definition writeSectorBuffer :: "'d FrFTL \<Rightarrow> PageInfo \<Rightarrow> 16 word \<Rightarrow> (nat \<times> PageInfo) option \<times> 'd FrFTL" where
  "writeSectorBuffer ftl pageInfo logPageNo =
     (if sint (infoPhysicalPageNo pageInfo) < 0 then
        (case allocatePhysicalPage ftl of
           (newPageNo, ftl1) \<Rightarrow>
             if sint newPageNo < 0 then (None, ftl1)
             else
               (case initPhysicalPageInBuffer ftl1 logPageNo newPageNo of
                  (None, ftl2) \<Rightarrow> (None, ftl2)
                | (Some dataBuffer, ftl2) \<Rightarrow>
                    (let pageInfo1 = \<lparr>infoPhysicalPageNo = newPageNo, sectStatus = 0xff\<rparr>
                     in case updatePageInfo ftl2 pageInfo1 logPageNo of
                          (False, ftl3) \<Rightarrow> (None, ftl3)
                        | (True, ftl3) \<Rightarrow> (Some (dataBuffer, pageInfo1), ftl3))))
      else
        (case loadPhysicalPageInBuffer ftl logPageNo (infoPhysicalPageNo pageInfo) of
           (None, ftl1) \<Rightarrow> (None, ftl1)
         | (Some dataBuffer, ftl1) \<Rightarrow> (Some (dataBuffer, pageInfo), ftl1)))"

text \<open>
  One pass of the \<open>while\<close> loop of \<open>ftlWriteSector\<close> after the free-buffer check. The
  result of \<open>readPageInfo\<close> is not tested: when it fails, \<open>pageInfo\<close> is uninitialised
  and its use is undefined behaviour.
\<close>

definition writeSectorBody :: "'d FrFTL \<Rightarrow> 32 word \<Rightarrow> 8 word list \<Rightarrow> (bool \<times> 'd FrFTL) outcome" where
  "writeSectorBody ftl sectorNo buf =
     (let logPageNo = sectorLogicalPageNo ftl sectorNo;
          pageSectorNo = sectorPageSectorNo sectorNo
      in case readPageInfo ftl logPageNo of
           (None, ftl1) \<Rightarrow> UB
         | (Some pageInfo0, ftl1) \<Rightarrow>
             (case writeSectorBuffer ftl1 pageInfo0 logPageNo of
                (None, ftl2) \<Rightarrow> Returns (False, ftl2)
              | (Some (dataBuffer, pageInfo), ftl2) \<Rightarrow>
                  if sectStatus pageInfo AND sectMask pageSectorNo \<noteq> 0 then
                    Returns (writeSectorAppend ftl2 dataBuffer pageInfo logPageNo pageSectorNo buf)
                  else writeSectorReplace ftl2 dataBuffer logPageNo pageSectorNo buf))"

fun writeSectorLoop :: "nat \<Rightarrow> 32 word \<Rightarrow> 8 word list \<Rightarrow> 'd FrFTL \<Rightarrow> (bool \<times> 'd FrFTL) outcome" where
  "writeSectorLoop 0 sectorNo buf ftl = Returns (True, ftl)"
| "writeSectorLoop (Suc noOfSectors) sectorNo buf ftl =
     (case (if \<not> hasFreeBuffers ftl 3 then ftlSync ftl else (True, ftl)) of
        (False, ftl1) \<Rightarrow> Returns (False, ftl1)
      | (True, ftl1) \<Rightarrow>
          (case writeSectorBody ftl1 sectorNo buf of
             UB \<Rightarrow> UB
           | Returns (False, ftl2) \<Rightarrow> Returns (False, ftl2)
           | Returns (True, ftl2) \<Rightarrow>
               writeSectorLoop noOfSectors (sectorNo + 1) (drop SECTOR_SIZE buf) ftl2))"

definition ftlWriteSector :: "'d FrFTL \<Rightarrow> 32 word \<Rightarrow> 32 word \<Rightarrow> 8 word list \<Rightarrow> (bool \<times> 'd FrFTL) outcome" where
  "ftlWriteSector ftl startSectorNo noOfSectors buf =
     (let ftl1 = resolveUnknownState ftl (ttPageCount ftl)
      in if startSectorNo + noOfSectors > usableSectorCount ftl1 then Returns (False, ftl1)
         else writeSectorLoop (unat noOfSectors) startSectorNo buf ftl1)"

text \<open>The result is \<open>None\<close> when the function returns false, and the 512 bytes stored in \<open>buffer\<close> otherwise.\<close>

definition ftlReadSector :: "'d FrFTL \<Rightarrow> 32 word \<Rightarrow> ((8 word list) option \<times> 'd FrFTL) outcome" where
  "ftlReadSector ftl sectorNo =
     (if sectorNo \<ge> usableSectorCount ftl then Returns (None, ftl)
      else
        (let logPageNo = sectorLogicalPageNo ftl sectorNo;
             pageSectorNo = sectorPageSectorNo sectorNo
         in case readPageInfo ftl logPageNo of
              (None, ftl1) \<Rightarrow> UB
            | (Some pageInfo, ftl1) \<Rightarrow>
                if sectStatus pageInfo AND sectMask pageSectorNo \<noteq> 0 then
                  Returns (Some (replicate SECTOR_SIZE 0xff), ftl1)
                else Returns (readPhysicalSector ftl1 logPageNo (infoPhysicalPageNo pageInfo) pageSectorNo)))"


subsection \<open>Mount and format\<close>

text \<open>
  The loop of \<open>initPageBuffer\<close> counts with an \<open>int8_t\<close>: after buffer 127 the counter
  wraps to -128, which is still below a \<open>pageBufferSize\<close> of 128 or more, and the loop
  writes in front of the array (undefined behaviour).
\<close>

function initPageBufferLoop :: "8 word \<Rightarrow> 'd FrFTL \<Rightarrow> 'd FrFTL outcome" where
  "initPageBufferLoop i ftl =
     (if sint i < uint (pageBufferSize ftl) then
        (if sint i < 0 then UB
         else initPageBufferLoop (i + 1)
                (updBuf (nat (sint i)) (\<lambda>b. b\<lparr>logicalPageNo := - 1, physicalPageNo := - 1,
                     lru := i, lock := False, pMode := NONE\<rparr>) ftl))
      else Returns ftl)"
  by pat_completeness auto
termination
proof (relation "measure (\<lambda>(i, ftl). if sint i < 0 then 0 else 256 - nat (sint i))", goal_cases)
  case 1
  show ?case by simp
next
  case (2 i ftl)
  have le: "sint i \<le> 127"
    using sint_lt [of i] by simp
  have "sint (i + 1) < 0 \<or> sint (i + 1) = sint i + 1"
  proof (cases "sint i = 127")
    case True
    then have "word_of_int (sint i) = (word_of_int 127 :: 8 word)" by simp
    then have "i = 127" by simp
    then show ?thesis by simp
  next
    case False
    with le 2 have "- 128 \<le> sint i + 1 \<and> sint i + 1 < 128" by simp
    then have "sint (i + 1) = sint i + 1"
      by (simp add: sint_word_ariths signed_take_bit_int_eq_self)
    then show ?thesis by simp
  qed
  with 2 le show ?case by auto
qed

text \<open>
  The buffers come from \<open>malloc\<close>: their contents are indeterminate until the loop and
  the first load or init of a page write them. The model starts from zeroed buffers.
\<close>

definition mallocPageBuffer :: "PageBuffer" where
  "mallocPageBuffer = \<lparr>logicalPageNo = 0, physicalPageNo = 0, lru = 0, lock = False,
                        pMode = NONE, page = (\<lambda>k. 0)\<rparr>"

definition initPageBuffer :: "'d FrFTL \<Rightarrow> 'd FrFTL outcome" where
  "initPageBuffer ftl =
     initPageBufferLoop 0
       (ftl\<lparr>pageBuffer := replicate (unat (pageBufferSize ftl)) mallocPageBuffer\<rparr>)"

definition initTransTablePage :: "32 word \<Rightarrow> Page" where
  "initTransTablePage logPageNo =
     (let d = put32 (put32 (put32 (\<lambda>k. 0xff) 0 TT_PAGE_MAGIC) 4 logPageNo) 8 1
      in put16 (calcCRCHeader d) 14 (calcCRC d))"

text \<open>The loop of \<open>createFTL\<close> over the secondary TT pages; the results of the HAL calls are not tested.\<close>

fun createSTTPages :: "nat list \<Rightarrow> Page \<Rightarrow> 'd FrFTL \<Rightarrow> Page \<times> 'd FrFTL" where
  "createSTTPages [] mtt ftl = (mtt, ftl)"
| "createSTTPages (i # is) mtt ftl =
     (let stt = initTransTablePage (of_nat i);
          addr = of_nat i * 4096;
          ftl1 = (if getPhysicalPageState ftl (of_nat i) \<noteq> ERASED then snd (callFlashErase ftl addr)
                  else ftl);
          ftl2 = snd (callFlashProgram ftl1 addr (int i) stt);
          ftl3 = setPhysicalPageState ftl2 (of_nat i) USED
      in createSTTPages is (setPageInfo mtt i \<lparr>infoPhysicalPageNo = of_nat i, sectStatus = 0\<rparr>) ftl3)"

definition createFTL :: "'d FrFTL \<Rightarrow> 'd FrFTL" where
  "createFTL ftl =
     (let ftl1 = resolveUnknownState (ftl\<lparr>writeFrontier := 0\<rparr>) (ucast (pageBufferSize ftl));
          mtt0 = setPageInfo (initTransTablePage 0) 0 \<lparr>infoPhysicalPageNo = 0, sectStatus = 0\<rparr>
      in case createSTTPages [1..<unat (ttPageCount ftl1)] mtt0 ftl1 of
           (mtt, ftl2) \<Rightarrow>
             (let ftl3 = (if getPhysicalPageState ftl2 0 \<noteq> ERASED then snd (callFlashErase ftl2 0)
                          else ftl2);
                  ftl4 = snd (callFlashProgram ftl3 0 0 mtt);
                  ftl5 = setPhysicalPageState ftl4 0 USED
              in ftl5\<lparr>writeFrontier := ttPageCount ftl5\<rparr>))"

text \<open>A header passes the test of \<open>loadFTL\<close> when magic, logical page number and CRC fit.\<close>

definition mttHeaderDetected :: "Page \<Rightarrow> bool" where
  "mttHeaderDetected header \<longleftrightarrow>
     hdrMagicStart header = TT_PAGE_MAGIC \<and> hdrLogicalPageNo header = 0
     \<and> hdrCrc16 header = calcCRC header"

definition readHeader :: "'d FrFTL \<Rightarrow> 16 word \<Rightarrow> Page" where
  "readHeader ftl i = snd (flashRead ftl (device ftl) (pageAddrS i) 16)"

text \<open>
  ``Scan for MTT'': the loop counts with an \<open>int16_t\<close>, which wraps from 32767 to -32768;
  with 32768 pages (128 MiB) it never reaches the page count and the loop does not end.
  The first argument is fuel; \<open>None\<close> is a loop that has not ended. The result is
  \<open>(currentSerial, currentPhysicalMTTPageNo)\<close>.
\<close>

fun scanForMTT :: "nat \<Rightarrow> 'd FrFTL \<Rightarrow> 16 word \<Rightarrow> 32 word \<Rightarrow> 16 word \<Rightarrow> (32 word \<times> 16 word) option" where
  "scanForMTT 0 ftl i currentSerial currentPhysicalMTTPageNo = None"
| "scanForMTT (Suc fuel) ftl i currentSerial currentPhysicalMTTPageNo =
     (if sint i < uint (physicalPageCount ftl) then
        (let header = readHeader ftl i
         in if mttHeaderDetected header \<and> hdrSerial header > currentSerial
            then scanForMTT fuel ftl (i + 1) (hdrSerial header) i
            else scanForMTT fuel ftl (i + 1) currentSerial currentPhysicalMTTPageNo)
      else Some (currentSerial, currentPhysicalMTTPageNo))"

text \<open>The inner loop of \<open>loadFTL\<close> over the records of a secondary TT page held in buffer \<open>stt\<close>.\<close>

fun markSTTRecords :: "nat \<Rightarrow> nat list \<Rightarrow> 'd FrFTL \<Rightarrow> 'd FrFTL" where
  "markSTTRecords stt [] ftl = ftl"
| "markSTTRecords stt (j # js) ftl =
     (let currentPhysicalPageNo = infoPhysicalPageNo (getPageInfo (page (pageBuffer ftl ! stt)) j)
      in markSTTRecords stt js
           (if sint currentPhysicalPageNo \<ge> 0 then setPhysicalPageState ftl currentPhysicalPageNo USED
            else ftl))"

text \<open>
  The outer loop over the records of the MTT held in buffer \<open>mtt\<close>. The buffer that
  \<open>loadPhysicalPageInBuffer\<close> returns for a secondary TT page is used without a NULL
  check.
\<close>

fun markMTTRecords :: "nat \<Rightarrow> nat list \<Rightarrow> 'd FrFTL \<Rightarrow> 'd FrFTL outcome" where
  "markMTTRecords mtt [] ftl = Returns ftl"
| "markMTTRecords mtt (i # is) ftl =
     (let currentPhysicalPageNo = infoPhysicalPageNo (getPageInfo (page (pageBuffer ftl ! mtt)) i);
          ftl1 = (if sint currentPhysicalPageNo \<ge> 0
                  then setPhysicalPageState ftl currentPhysicalPageNo USED else ftl)
      in if int i < uint (ttPageCount ftl1) then
           (case loadPhysicalPageInBuffer ftl1 (of_nat i) currentPhysicalPageNo of
              (None, ftl2) \<Rightarrow> UB
            | (Some stt, ftl2) \<Rightarrow>
                markMTTRecords mtt is (markSTTRecords stt [0..<TT_RECORDS_PER_PAGE] ftl2))
         else markMTTRecords mtt is ftl1)"

definition loadFTL :: "nat \<Rightarrow> 'd FrFTL \<Rightarrow> (bool \<times> 'd FrFTL) outcome option" where
  "loadFTL fuel ftl =
     (case scanForMTT fuel ftl 0 0 (- 1) of
        None \<Rightarrow> None
      | Some (currentSerial, currentPhysicalMTTPageNo) \<Rightarrow>
          Some
            (if sint currentPhysicalMTTPageNo \<ge> 0 then
               (let ftl1 = setPhysicalPageState (ftl\<lparr>mttPhysicalPageNo := currentPhysicalMTTPageNo\<rparr>)
                             currentPhysicalMTTPageNo USED;
                    ftl2 = ftl1\<lparr>writeFrontier := nextPageNo ftl1 currentPhysicalMTTPageNo\<rparr>
                in case loadPhysicalPageInBuffer ftl2 0 currentPhysicalMTTPageNo of
                     (None, ftl3) \<Rightarrow> UB
                   | (Some mtt, ftl3) \<Rightarrow>
                       (case markMTTRecords mtt [1..<TT_RECORDS_PER_PAGE] ftl3 of
                          UB \<Rightarrow> UB
                        | Returns ftl4 \<Rightarrow>
                            Returns (True, resolveUnknownState ftl4 (ucast (pageBufferSize ftl4)))))
             else Returns (False, ftl)))"

text \<open>
  \<open>ftlInit\<close>: \<open>Returns None\<close> is the NULL result. The handle comes zeroed from
  \<open>calloc\<close>; \<open>dev\<close> is the state of the flash device behind the callbacks.
\<close>

definition newHandle :: "('d \<Rightarrow> 32 word \<Rightarrow> nat \<Rightarrow> bool \<times> Page) \<Rightarrow> ('d \<Rightarrow> 32 word \<Rightarrow> Page \<Rightarrow> bool \<times> 'd)
    \<Rightarrow> ('d \<Rightarrow> 32 word \<Rightarrow> bool \<times> 'd) \<Rightarrow> ('d \<Rightarrow> 32 word \<Rightarrow> bool) \<Rightarrow> 'd \<Rightarrow> 8 word \<Rightarrow> 'd FrFTL" where
  "newHandle rf pf ef ief dev flashSizeInMB =
     (let pageCount = (ucast flashSizeInMB * 256 :: 16 word);
          ttCount = pageCount div 1024;
          stateSize = unat pageCount div 16 + (if unat pageCount mod 16 > 0 then 1 else 0)
      in \<lparr>flashRead = rf, flashProgram = pf, flashErase = ef, isFlashErased = ief,
          device = dev, halLog = [],
          mttPhysicalPageNo = 0,
          usableSectorCount = (ucast pageCount - ucast ttCount * 16) * 8,
          physicalPageCount = pageCount,
          ttPageCount = ttCount,
          writeFrontier = 0,
          pageBuffer = [],
          pageBufferSize = ucast (ttCount * 4),
          physicalPageState = replicate stateSize 0,
          physicalPageStateResolved = False\<rparr>)"

definition ftlInit :: "nat \<Rightarrow> ('d \<Rightarrow> 32 word \<Rightarrow> nat \<Rightarrow> bool \<times> Page) \<Rightarrow> ('d \<Rightarrow> 32 word \<Rightarrow> Page \<Rightarrow> bool \<times> 'd)
    \<Rightarrow> ('d \<Rightarrow> 32 word \<Rightarrow> bool \<times> 'd) \<Rightarrow> ('d \<Rightarrow> 32 word \<Rightarrow> bool) \<Rightarrow> 'd \<Rightarrow> 8 word
    \<Rightarrow> ('d FrFTL option) outcome option" where
  "ftlInit fuel rf pf ef ief dev flashSizeInMB =
     (if find (\<lambda>s. flashSizeInMB = s) supportedFlashSizes = None then Some (Returns None)
      else
        (case initPageBuffer (newHandle rf pf ef ief dev flashSizeInMB) of
           UB \<Rightarrow> Some UB
         | Returns ftl1 \<Rightarrow>
             (case loadFTL fuel ftl1 of
                None \<Rightarrow> None
              | Some UB \<Rightarrow> Some UB
              | Some (Returns (True, ftl2)) \<Rightarrow> Some (Returns (Some ftl2))
              | Some (Returns (False, ftl2)) \<Rightarrow> Some (Returns (Some (createFTL ftl2))))))"

subsection \<open>A NOR flash device behind the HAL\<close>

text \<open>
  Modelled from the spec: the callbacks are supplied by the caller of \<open>ftlInit\<close> and are
  not part of frftl.cpp. The spec gives their contract: \<open>flash_read\<close> copies \<open>len\<close>
  bytes, \<open>flash_program\<close> changes bits from 1 to 0 only, \<open>flash_erase\<close> erases one
  4 KiB page, \<open>is_flash_erased\<close> is true iff the page is all ones. The device is a map
  from page numbers to page contents; every call succeeds. It is the device of the
  examples below.
\<close>

type_synonym NorFlash = "nat \<Rightarrow> Page"

definition norRead :: "NorFlash \<Rightarrow> 32 word \<Rightarrow> nat \<Rightarrow> bool \<times> Page" where
  "norRead dev addr len = (True, \<lambda>k. dev (unat addr div PAGE_SIZE) (unat addr mod PAGE_SIZE + k))"

definition norProgram :: "NorFlash \<Rightarrow> 32 word \<Rightarrow> Page \<Rightarrow> bool \<times> NorFlash" where
  "norProgram dev addr d =
     (True, dev(unat addr div PAGE_SIZE := (\<lambda>k. dev (unat addr div PAGE_SIZE) k AND d k)))"

definition norErase :: "NorFlash \<Rightarrow> 32 word \<Rightarrow> bool \<times> NorFlash" where
  "norErase dev addr = (True, dev(unat addr div PAGE_SIZE := (\<lambda>k. 0xff)))"

definition norIsErased :: "NorFlash \<Rightarrow> 32 word \<Rightarrow> bool" where
  "norIsErased dev addr \<longleftrightarrow> list_all (\<lambda>k. dev (unat addr div PAGE_SIZE) k = 0xff) [0..<PAGE_SIZE]"

definition erasedFlash :: NorFlash where
  "erasedFlash = (\<lambda>pageNo k. 0xff)"

definition norHandle :: "NorFlash \<Rightarrow> 8 word \<Rightarrow> NorFlash FrFTL" where
  "norHandle dev flashSizeInMB = newHandle norRead norProgram norErase norIsErased dev flashSizeInMB"

subsection \<open>The two-bit slots of the state map\<close>

definition slotGet :: "nat \<Rightarrow> 32 word \<Rightarrow> 32 word" where
  "slotGet n w = drop_bit n w AND 3"

definition slotSet :: "nat \<Rightarrow> 32 word \<Rightarrow> 32 word \<Rightarrow> 32 word" where
  "slotSet n c w = (w AND NOT (push_bit n 3)) OR push_bit n (c AND 3)"

definition cacheOnly :: "'d FrFTL \<Rightarrow> 'd FrFTL \<Rightarrow> bool" where
  "cacheOnly ftl ftl' \<longleftrightarrow> ftl' = ftl\<lparr>pageBuffer := pageBuffer ftl'\<rparr>"

definition stateMapOnly :: "'d FrFTL \<Rightarrow> 'd FrFTL \<Rightarrow> bool" where
  "stateMapOnly ftl ftl' \<longleftrightarrow>
     ftl' = ftl\<lparr>physicalPageState := physicalPageState ftl',
                physicalPageStateResolved := physicalPageStateResolved ftl'\<rparr>"

text \<open>
  The handle \<open>ftlInit\<close> returns for an erased 4 MiB NOR device: \<open>buffered4\<close> is the
  handle after \<open>initPageBuffer\<close>, \<open>formatted4\<close> the one after \<open>createFTL\<close>, with
  the master TT \<open>formattedMTT\<close> programmed to page 0 and the first four pages resolved.
\<close>

definition formattedMTT :: Page where
  "formattedMTT = setPageInfo (initTransTablePage 0) 0 \<lparr>infoPhysicalPageNo = 0, sectStatus = 0\<rparr>"

definition freshBuffer :: "8 word \<Rightarrow> PageBuffer" where
  "freshBuffer i = \<lparr>logicalPageNo = - 1, physicalPageNo = - 1, lru = i, lock = False,
                     pMode = NONE, page = (\<lambda>k. 0)\<rparr>"

definition buffered4 :: "NorFlash FrFTL" where
  "buffered4 = (norHandle erasedFlash 4)\<lparr>pageBuffer := [freshBuffer 0, freshBuffer 1, freshBuffer 2, freshBuffer 3]\<rparr>"

definition formatted4 :: "NorFlash FrFTL" where
  "formatted4 =
     \<lparr>flashRead = norRead, flashProgram = norProgram, flashErase = norErase,
      isFlashErased = norIsErased,
      device = erasedFlash(0 := (\<lambda>k. erasedFlash 0 k AND formattedMTT k)),
      halLog = [FlashProgram 0 0],
      mttPhysicalPageNo = 0, usableSectorCount = 8064, physicalPageCount = 1024,
      ttPageCount = 1, writeFrontier = 1,
      pageBuffer = [freshBuffer 0, freshBuffer 1, freshBuffer 2, freshBuffer 3],
      pageBufferSize = 4,
      physicalPageState = 0xFD # replicate 63 0,
      physicalPageStateResolved = False\<rparr>"

text \<open>
  One pass of the scan loop of \<open>loadFTL\<close> as a function of the page number, and the
  pages the scan looks for: \<open>mttCandidate ftl j\<close> holds when the header of page \<open>j\<close>
  passes the test of \<open>loadFTL\<close>; \<open>authoritativeMTT ftl n m\<close> holds when \<open>m\<close> is the
  first page below \<open>n\<close> that carries the greatest serial among the candidates below
  \<open>n\<close>, and that serial is not 0.
\<close>

definition scanStep :: "'d FrFTL \<Rightarrow> nat \<Rightarrow> 32 word \<times> 16 word \<Rightarrow> 32 word \<times> 16 word" where
  "scanStep ftl j acc =
     (let header = readHeader ftl (of_nat j)
      in if mttHeaderDetected header \<and> hdrSerial header > fst acc then (hdrSerial header, of_nat j)
         else acc)"

definition mttCandidate :: "'d FrFTL \<Rightarrow> nat \<Rightarrow> bool" where
  "mttCandidate ftl j \<longleftrightarrow> mttHeaderDetected (readHeader ftl (of_nat j))"

definition pageSerial :: "'d FrFTL \<Rightarrow> nat \<Rightarrow> 32 word" where
  "pageSerial ftl j = hdrSerial (readHeader ftl (of_nat j))"


text \<open>
  Frames: \<open>cacheOnly\<close> (only the page buffers differ), \<open>stateMapOnly\<close> (only the state
  map and its resolved flag differ), \<open>cacheStateOnly\<close> (only those three differ).
\<close>

definition cacheStateOnly :: "'d FrFTL \<Rightarrow> 'd FrFTL \<Rightarrow> bool" where
  "cacheStateOnly ftl ftl' \<longleftrightarrow>
     ftl' = ftl\<lparr>pageBuffer := pageBuffer ftl', physicalPageState := physicalPageState ftl',
                physicalPageStateResolved := physicalPageStateResolved ftl'\<rparr>"



definition bufferedNor4 :: "NorFlash \<Rightarrow> NorFlash FrFTL" where
  "bufferedNor4 dev = (norHandle dev 4)\<lparr>pageBuffer := [freshBuffer 0, freshBuffer 1, freshBuffer 2, freshBuffer 3]\<rparr>"

section \<open>Properties\<close>

subsection \<open>State map: reading back what was set\<close>

lemma stateOfCode_stateCode: "stateOfCode (stateCode s AND 3) = s"
  by (cases s) (simp_all add: stateOfCode_def)

lemma three_mask: "(3 :: 32 word) = mask 2"
  by (simp add: mask_eq_exp_minus_1)

lemma stateShift_eq: "stateShift p = 2 * (unat p mod 16)"
proof -
  have "p mod 2 ^ 4 = p AND mask 4"
    by (rule word_mod_2p_is_mask) simp
  then have "p AND 0xf = p mod 16" by (simp add: mask_eq_exp_minus_1)
  then have "unat (p AND 0xf) = unat p mod 2 ^ 4"
    by (simp add: unat_mod)
  then show ?thesis by (simp add: stateShift_def)
qed

lemma stateShift_bound: "stateShift p < 31"
  by (simp add: stateShift_eq)

lemma stateShift_even: "even (stateShift p)"
  by (simp add: stateShift_eq)

lemma slot_same:
  assumes "n < 31"
  shows "slotGet n (slotSet n c w) = c AND 3"
  unfolding three_mask slotGet_def slotSet_def
  by (rule bit_word_eqI) (use assms in \<open>auto simp add: bit_simps\<close>)

lemma slot_other:
  assumes "n < 31" "m < 31" "even n" "even m" "n \<noteq> m"
  shows "slotGet m (slotSet n c w) = slotGet m w"
  unfolding three_mask slotGet_def slotSet_def
  by (rule bit_word_eqI) (use assms in \<open>auto simp add: bit_simps elim!: evenE\<close>)

lemma get_slot: "getPhysicalPageState ftl p = stateOfCode (slotGet (stateShift p) (physicalPageState ftl ! stateIdx p))"
  by (simp add: getPhysicalPageState_def slotGet_def)

lemma set_slot: "setPhysicalPageState ftl p s = ftl\<lparr>physicalPageState := (physicalPageState ftl)[stateIdx p := slotSet (stateShift p) (stateCode s) (physicalPageState ftl ! stateIdx p)]\<rparr>"
  by (simp add: setPhysicalPageState_def slotSet_def Let_def)

lemma get_set_same:
  assumes "stateIdx p < length (physicalPageState ftl)"
  shows "getPhysicalPageState (setPhysicalPageState ftl p s) p = s"
  using assms
  by (simp add: get_slot set_slot slot_same [OF stateShift_bound] stateOfCode_stateCode)

lemma get_set_other_slot:
  assumes "stateIdx p \<noteq> stateIdx q \<or> stateShift p \<noteq> stateShift q"
  shows "getPhysicalPageState (setPhysicalPageState ftl p s) q = getPhysicalPageState ftl q"
proof (cases "stateIdx p = stateIdx q")
  case False
  then show ?thesis
    by (simp add: get_slot set_slot)
next
  case True
  with assms have ne: "stateShift p \<noteq> stateShift q" by simp
  show ?thesis
  proof (cases "stateIdx p < length (physicalPageState ftl)")
    case False
    then show ?thesis
      by (simp add: get_slot set_slot list_update_beyond)
  next
    case inr: True
    show ?thesis
      using True inr
      by (simp add: get_slot set_slot
          slot_other [OF stateShift_bound stateShift_bound stateShift_even stateShift_even ne])
  qed
qed

lemma sint_mod16: "sint (p :: 16 word) mod 16 = uint p mod 16"
proof -
  have "take_bit 4 (sint p) = take_bit 4 (uint p)"
    by (simp add: sint_uint take_bit_signed_take_bit)
  then show ?thesis by (simp add: take_bit_eq_mod)
qed

lemma stateIdx_inj:
  assumes "stateIdx p = stateIdx q" "stateShift p = stateShift q"
  shows "p = q"
proof -
  have bp: "- 2048 \<le> sint p div 16 \<and> sint p div 16 < 2048"
    using sint_ge [of p] sint_lt [of p] by simp presburger
  have bq: "- 2048 \<le> sint q div 16 \<and> sint q div 16 < 2048"
    using sint_ge [of q] sint_lt [of q] by simp presburger
  have "(word_of_int (sint p div 16) :: 32 word) = word_of_int (sint q div 16)"
    using assms(1) by (simp add: stateIdx_def word_unat_eq_iff)
  then have "signed_take_bit 31 (sint p div 16) = signed_take_bit 31 (sint q div 16)"
    by (simp add: word_of_int_eq_iff signed_take_bit_eq_iff_take_bit_eq)
  then have d: "sint p div 16 = sint q div 16"
    using bp bq by (simp add: signed_take_bit_int_eq_self)
  have "unat p mod 16 = unat q mod 16"
    using assms(2) by (simp add: stateShift_eq)
  then have "uint p mod 16 = uint q mod 16"
    by (metis of_nat_mod of_nat_numeral uint_nat)
  then have m: "sint p mod 16 = sint q mod 16" by (simp add: sint_mod16)
  have "sint p = sint q"
    using d m by (metis mult_div_mod_eq)
  then show ?thesis by (rule signed_word_eqI)
qed

lemma get_set_other:
  assumes "p \<noteq> q"
  shows "getPhysicalPageState (setPhysicalPageState ftl p s) q = getPhysicalPageState ftl q"
  using assms stateIdx_inj [of p q] by (intro get_set_other_slot) blast

lemma sint_eq_uint16:
  assumes "unat (p :: 16 word) < 32768"
  shows "sint p = uint p"
proof -
  have "uint p < 32768" using assms unfolding uint_nat by linarith
  moreover have "- 32768 \<le> uint p"
    by (rule order_trans [OF _ uint_nonnegative]) simp
  ultimately have "signed_take_bit 15 (uint p) = uint p"
    by (intro signed_take_bit_int_eq_self) simp_all
  then show ?thesis
    by (simp add: sint_uint)
qed

lemma stateIdx_nonneg:
  assumes "unat p < 32768"
  shows "stateIdx p = unat p div 16"
proof -
  have "unat p div 16 < 2 ^ 32"
    using assms by simp
  then have "unat (of_nat (unat p div 16) :: 32 word) = unat p div 16"
    by (simp add: unat_of_nat take_bit_nat_eq_self)
  moreover have "sint p div 16 = int (unat p div 16)"
    using assms unfolding sint_eq_uint16 [OF assms] uint_nat by (simp add: zdiv_int)
  ultimately show ?thesis
    by (simp add: stateIdx_def)
qed

text \<open>
  C10. For a handle whose page count is at most 32768 and whose state array covers it (as
  \<open>ftlInit\<close> allocates it), and a physical page \<open>p\<close> below the page count: after
  \<open>setPhysicalPageState ftl p s\<close>, \<open>getPhysicalPageState\<close> returns \<open>s\<close> for \<open>p\<close> and
  what it returned before for every other page \<open>q\<close> below the page count.
\<close>

theorem state_map_get_set:
  assumes "unat (physicalPageCount ftl) \<le> 32768"
    and "unat (physicalPageCount ftl) \<le> 16 * length (physicalPageState ftl)"
    and "unat p < unat (physicalPageCount ftl)"
  shows "getPhysicalPageState (setPhysicalPageState ftl p s) p = s
    \<and> (\<forall>q. unat q < unat (physicalPageCount ftl) \<and> q \<noteq> p \<longrightarrow>
           getPhysicalPageState (setPhysicalPageState ftl p s) q = getPhysicalPageState ftl q)"
proof -
  have "unat p < 32768" using assms by simp
  then have "stateIdx p = unat p div 16" by (rule stateIdx_nonneg)
  then have "stateIdx p < length (physicalPageState ftl)"
    using assms by simp
  then show ?thesis
    by (auto simp add: get_set_same get_set_other)
qed


theorem state_map_get_set_witness:
  "getPhysicalPageState (setPhysicalPageState (norHandle erasedFlash 4) 5 ERASED) 5 = ERASED
   \<and> getPhysicalPageState (setPhysicalPageState (norHandle erasedFlash 4) 5 ERASED) 6
       = getPhysicalPageState (norHandle erasedFlash 4) 6"
proof -
  have "unat (physicalPageCount (norHandle erasedFlash 4)) \<le> 32768"
    and "unat (physicalPageCount (norHandle erasedFlash 4))
           \<le> 16 * length (physicalPageState (norHandle erasedFlash 4))"
    and "unat (5 :: 16 word) < unat (physicalPageCount (norHandle erasedFlash 4))"
    by (simp_all add: norHandle_def newHandle_def)
  from state_map_get_set [OF this, of ERASED] have
    same: "getPhysicalPageState (setPhysicalPageState (norHandle erasedFlash 4) 5 ERASED) 5 = ERASED"
    and other: "\<And>q. unat q < unat (physicalPageCount (norHandle erasedFlash 4)) \<Longrightarrow> q \<noteq> 5 \<Longrightarrow>
           getPhysicalPageState (setPhysicalPageState (norHandle erasedFlash 4) 5 ERASED) q
           = getPhysicalPageState (norHandle erasedFlash 4) q"
    by blast+
  have "unat (6 :: 16 word) < unat (physicalPageCount (norHandle erasedFlash 4))"
    by (simp add: norHandle_def newHandle_def)
  with same other [of 6] show ?thesis
    by simp
qed

subsection \<open>Frame lemmas: what the cache operations and the resolver leave alone\<close>

lemma cacheOnly_refl [simp]: "cacheOnly ftl ftl"
  by (simp add: cacheOnly_def)

lemma cacheOnlyE:
  assumes "cacheOnly ftl ftl'"
  obtains bufs where "ftl' = ftl\<lparr>pageBuffer := bufs\<rparr>"
  using assms unfolding cacheOnly_def by blast

lemma cacheOnlyI: "ftl' = ftl\<lparr>pageBuffer := bufs\<rparr> \<Longrightarrow> cacheOnly ftl ftl'"
  by (simp add: cacheOnly_def)

lemma cacheOnly_trans: "cacheOnly a b \<Longrightarrow> cacheOnly b c \<Longrightarrow> cacheOnly a c"
  by (elim cacheOnlyE) (simp add: cacheOnly_def)

lemma cacheOnly_updBuf [simp]: "cacheOnly ftl (updBuf i f ftl)"
  by (simp add: cacheOnly_def updBuf_def)

lemma cacheOnly_updateLRU [simp]: "cacheOnly ftl (updateLRU i ftl)"
  by (simp add: cacheOnly_def updateLRU_def Let_def split: option.splits)

lemma cacheOnly_fields:
  assumes "cacheOnly ftl ftl'"
  shows "flashRead ftl' = flashRead ftl" "flashProgram ftl' = flashProgram ftl"
    "flashErase ftl' = flashErase ftl" "isFlashErased ftl' = isFlashErased ftl"
    "device ftl' = device ftl" "halLog ftl' = halLog ftl"
    "mttPhysicalPageNo ftl' = mttPhysicalPageNo ftl" "usableSectorCount ftl' = usableSectorCount ftl"
    "physicalPageCount ftl' = physicalPageCount ftl" "ttPageCount ftl' = ttPageCount ftl"
    "writeFrontier ftl' = writeFrontier ftl" "pageBufferSize ftl' = pageBufferSize ftl"
    "physicalPageState ftl' = physicalPageState ftl"
    "physicalPageStateResolved ftl' = physicalPageStateResolved ftl"
  using assms by (auto elim!: cacheOnlyE)

lemma cacheOnly_find: "findPhysicalPageInBuffer ftl p = (r, ftl') \<Longrightarrow> cacheOnly ftl ftl'"
  by (auto simp add: findPhysicalPageInBuffer_def split: option.splits)

lemma cacheOnly_updBuf_step [simp]: "cacheOnly a b \<Longrightarrow> cacheOnly a (updBuf i f b)"
  by (erule cacheOnly_trans) simp

lemma cacheOnly_updateLRU_step [simp]: "cacheOnly a b \<Longrightarrow> cacheOnly a (updateLRU i b)"
  by (erule cacheOnly_trans) simp

lemma cacheOnly_load:
  assumes "loadPhysicalPageInBuffer ftl l p = (r, ftl')"
  shows "cacheOnly ftl ftl'"
proof -
  obtain r1 ftl1 where f: "findPhysicalPageInBuffer ftl p = (r1, ftl1)"
    by (cases "findPhysicalPageInBuffer ftl p")
  have c1: "cacheOnly ftl ftl1"
    using f by (rule cacheOnly_find)
  show ?thesis
    using assms f c1
    by (cases r1; cases "findUnlockedBuffer ftl1")
      (auto simp add: loadPhysicalPageInBuffer_def Let_def split: if_splits)
qed

lemma cacheOnly_init:
  assumes "initPhysicalPageInBuffer ftl l p = (r, ftl')"
  shows "cacheOnly ftl ftl'"
proof -
  obtain r1 ftl1 where f: "findPhysicalPageInBuffer ftl p = (r1, ftl1)"
    by (cases "findPhysicalPageInBuffer ftl p")
  have c1: "cacheOnly ftl ftl1"
    using f by (rule cacheOnly_find)
  show ?thesis
    using assms f c1
    by (cases r1; cases "findUnlockedBuffer ftl1")
      (auto simp add: initPhysicalPageInBuffer_def)
qed

lemma cacheOnly_readPhysicalPageInfo:
  "readPhysicalPageInfo ftl l p n = (r, ftl') \<Longrightarrow> cacheOnly ftl ftl'"
  by (auto simp add: readPhysicalPageInfo_def split: prod.splits option.splits dest: cacheOnly_load)

lemma cacheOnly_readPhysicalSector:
  "readPhysicalSector ftl l p n = (r, ftl') \<Longrightarrow> cacheOnly ftl ftl'"
  by (auto simp add: readPhysicalSector_def split: prod.splits option.splits dest: cacheOnly_load)

lemma cacheOnly_updatePhysicalPageInfo:
  "updatePhysicalPageInfo ftl info l p n = (r, ftl') \<Longrightarrow> cacheOnly ftl ftl'"
  by (auto simp add: updatePhysicalPageInfo_def split: prod.splits option.splits dest: cacheOnly_load)

lemma cacheOnly_readPageInfo:
  "readPageInfo ftl l = (r, ftl') \<Longrightarrow> cacheOnly ftl ftl'"
  by (auto simp add: readPageInfo_def Let_def split: if_splits prod.splits option.splits
      dest: cacheOnly_readPhysicalPageInfo intro: cacheOnly_trans)

lemma cacheOnly_updatePageInfo:
  "updatePageInfo ftl info l = (r, ftl') \<Longrightarrow> cacheOnly ftl ftl'"
  by (auto simp add: updatePageInfo_def Let_def split: if_splits prod.splits option.splits
      dest: cacheOnly_readPhysicalPageInfo cacheOnly_updatePhysicalPageInfo intro: cacheOnly_trans)

lemma stateMapOnlyE:
  assumes "stateMapOnly ftl ftl'"
  obtains st b where "ftl' = ftl\<lparr>physicalPageState := st, physicalPageStateResolved := b\<rparr>"
  using assms unfolding stateMapOnly_def by blast

lemma stateMapOnly_refl [simp]: "stateMapOnly ftl ftl"
  by (simp add: stateMapOnly_def)

lemma stateMapOnly_trans: "stateMapOnly a b \<Longrightarrow> stateMapOnly b c \<Longrightarrow> stateMapOnly a c"
  by (elim stateMapOnlyE) (simp add: stateMapOnly_def)

lemma stateMapOnly_set [simp]: "stateMapOnly ftl (setPhysicalPageState ftl p s)"
  by (simp add: stateMapOnly_def set_slot)

lemma stateMapOnly_resolveLoop:
  "resolveLoop n idx c ftl = (e, ftl') \<Longrightarrow> stateMapOnly ftl ftl'"
proof (induction n arbitrary: idx c ftl)
  case 0
  then show ?case by simp
next
  case (Suc n)
  then show ?case
    by (auto simp add: Let_def split: if_splits intro: stateMapOnly_trans [OF stateMapOnly_set])
qed

lemma stateMapOnly_resolveUnknownState: "stateMapOnly ftl (resolveUnknownState ftl c)"
proof -
  obtain e ftl1 where r: "resolveLoop (unat (physicalPageCount ftl)) (writeFrontier ftl) c ftl = (e, ftl1)"
    by (cases "resolveLoop (unat (physicalPageCount ftl)) (writeFrontier ftl) c ftl")
  from r have "stateMapOnly ftl ftl1"
    by (rule stateMapOnly_resolveLoop)
  then obtain st b where "ftl1 = ftl\<lparr>physicalPageState := st, physicalPageStateResolved := b\<rparr>"
    by (rule stateMapOnlyE)
  then show ?thesis
    using r by (simp add: resolveUnknownState_def stateMapOnly_def)
qed

lemma resolveLoop_keeps_known:
  assumes "resolveLoop n idx c ftl = (e, ftl')" "getPhysicalPageState ftl q \<noteq> UNKNOWN"
  shows "getPhysicalPageState ftl' q = getPhysicalPageState ftl q"
  using assms
proof (induction n arbitrary: idx c ftl)
  case 0
  then show ?case by simp
next
  case (Suc n)
  show ?case
  proof (cases "getPhysicalPageState ftl idx = UNKNOWN")
    case False
    then show ?thesis using Suc by simp
  next
    case True
    with Suc.prems have ne: "idx \<noteq> q" by auto
    let ?s = "if isFlashErased ftl (device ftl) (pageAddrU idx) then ERASED else ERASE_REQUIRED"
    have g: "getPhysicalPageState (setPhysicalPageState ftl idx ?s) q = getPhysicalPageState ftl q"
      using ne by (rule get_set_other)
    show ?thesis
    proof (cases "c - 1 = 0")
      case z: True
      with True Suc.prems g show ?thesis by (auto simp add: Let_def)
    next
      case nz: False
      with True Suc.prems have
        "resolveLoop n (nextPageNo (setPhysicalPageState ftl idx ?s) idx) (c - 1)
           (setPhysicalPageState ftl idx ?s) = (e, ftl')"
        by (simp add: Let_def)
      from Suc.IH [OF this] g Suc.prems show ?thesis by simp
    qed
  qed
qed

lemma get_resolved_flag [simp]:
  "getPhysicalPageState (f\<lparr>physicalPageStateResolved := b\<rparr>) q = getPhysicalPageState f q"
  by (simp add: get_slot)

lemma resolveUnknownState_keeps_known:
  assumes "getPhysicalPageState ftl q \<noteq> UNKNOWN"
  shows "getPhysicalPageState (resolveUnknownState ftl c) q = getPhysicalPageState ftl q"
proof -
  obtain e ftl1 where r: "resolveLoop (unat (physicalPageCount ftl)) (writeFrontier ftl) c ftl = (e, ftl1)"
    by (cases "resolveLoop (unat (physicalPageCount ftl)) (writeFrontier ftl) c ftl")
  from resolveLoop_keeps_known [OF r assms] r show ?thesis
    by (simp add: resolveUnknownState_def)
qed

subsection \<open>Rejection of invalid parameters\<close>

text \<open>
  C7, as amended. \<open>ftlInit\<close> returns NULL for every \<open>flashSizeInMB\<close> outside
  {4, 8, 16, 32, 64, 128}. \<open>ftlReadSector\<close> returns false for every sector number at or
  above \<open>usableSectorCount\<close> and leaves the whole handle unchanged. \<open>ftlWriteSector\<close>
  returns false whenever the 32-bit sum \<open>startSectorNo + noOfSectors\<close> exceeds
  \<open>usableSectorCount\<close>; cache, frontier, MTT pointer, flash and HAL log are then unchanged,
  but the lazy resolver has run before the range check: state-map entries that were
  UNKNOWN may have been resolved (entries that were not UNKNOWN keep their state), and
  nothing at all changes once \<open>physicalPageStateResolved\<close> is set.
\<close>

theorem invalid_parameters_rejected:
  "(flashSizeInMB \<notin> set supportedFlashSizes \<longrightarrow>
      ftlInit fuel rf pf ef ief dev flashSizeInMB = Some (Returns None))
   \<and> (sectorNo \<ge> usableSectorCount ftl \<longrightarrow> ftlReadSector ftl sectorNo = Returns (None, ftl))
   \<and> (startSectorNo + noOfSectors > usableSectorCount ftl \<longrightarrow>
        (\<exists>ftl'. ftlWriteSector ftl startSectorNo noOfSectors buf = Returns (False, ftl')
           \<and> stateMapOnly ftl ftl'
           \<and> (\<forall>q. getPhysicalPageState ftl q \<noteq> UNKNOWN \<longrightarrow>
                  getPhysicalPageState ftl' q = getPhysicalPageState ftl q)
           \<and> (physicalPageStateResolved ftl \<longrightarrow> ftl' = ftl)))"
proof (intro conjI impI)
  assume "flashSizeInMB \<notin> set supportedFlashSizes"
  then have "find (\<lambda>s. flashSizeInMB = s) supportedFlashSizes = None"
    by (auto simp add: find_None_iff)
  then show "ftlInit fuel rf pf ef ief dev flashSizeInMB = Some (Returns None)"
    by (simp add: ftlInit_def)
next
  assume "sectorNo \<ge> usableSectorCount ftl"
  then show "ftlReadSector ftl sectorNo = Returns (None, ftl)"
    by (simp add: ftlReadSector_def)
next
  assume a: "startSectorNo + noOfSectors > usableSectorCount ftl"
  let ?f = "resolveUnknownState ftl (ttPageCount ftl)"
  have s: "stateMapOnly ftl ?f" by (rule stateMapOnly_resolveUnknownState)
  then have u: "usableSectorCount ?f = usableSectorCount ftl"
    by (auto elim!: stateMapOnlyE)
  have w: "ftlWriteSector ftl startSectorNo noOfSectors buf = Returns (False, ?f)"
    using a u by (simp add: ftlWriteSector_def Let_def)
  have r: "physicalPageStateResolved ftl \<longrightarrow> ?f = ftl"
    by (simp add: resolveUnknownState_def)
  show "\<exists>ftl'. ftlWriteSector ftl startSectorNo noOfSectors buf = Returns (False, ftl')
           \<and> stateMapOnly ftl ftl'
           \<and> (\<forall>q. getPhysicalPageState ftl q \<noteq> UNKNOWN \<longrightarrow>
                  getPhysicalPageState ftl' q = getPhysicalPageState ftl q)
           \<and> (physicalPageStateResolved ftl \<longrightarrow> ftl' = ftl)"
    using w s r resolveUnknownState_keeps_known by blast
qed

subsection \<open>Example: mounting an erased 4 MiB device\<close>

lemma replicate_4: "replicate 4 x = [x, x, x, x]"
  by (simp add: numeral_eq_Suc)

lemma initPageBuffer_4: "initPageBuffer (norHandle erasedFlash 4) = Returns buffered4"
  by (simp add: initPageBuffer_def norHandle_def newHandle_def mallocPageBuffer_def updBuf_def
      buffered4_def freshBuffer_def replicate_4)

lemma norIsErased_erased [simp]: "norIsErased erasedFlash addr"
  by (simp add: norIsErased_def erasedFlash_def list_all_iff)

lemma get_eval: "unat p < 32768 \<Longrightarrow> getPhysicalPageState ftl p
   = stateOfCode (slotGet (2 * (unat p mod 16)) (physicalPageState ftl ! (unat p div 16)))"
  by (simp add: get_slot stateIdx_nonneg stateShift_eq)

lemma set_eval: "unat p < 32768 \<Longrightarrow> setPhysicalPageState ftl p s
   = ftl\<lparr>physicalPageState := (physicalPageState ftl)[unat p div 16 :=
        slotSet (2 * (unat p mod 16)) (stateCode s) (physicalPageState ftl ! (unat p div 16))]\<rparr>"
  by (simp add: set_slot stateIdx_nonneg stateShift_eq)

lemma replicate_64: "replicate 64 x = x # replicate 63 x"
  by (simp add: numeral_eq_Suc)

lemma resolveLoop_unfold:
  "0 < n \<Longrightarrow> resolveLoop n idx count ftl =
     (if getPhysicalPageState ftl idx = UNKNOWN then
        (let state = (if isFlashErased ftl (device ftl) (pageAddrU idx) then ERASED else ERASE_REQUIRED);
             ftl1 = setPhysicalPageState ftl idx state;
             count1 = count - 1
         in if count1 = 0 then (True, ftl1)
            else resolveLoop (n - 1) (nextPageNo ftl1 idx) count1 ftl1)
      else resolveLoop (n - 1) (nextPageNo ftl idx) count ftl)"
  by (cases n) (auto simp add: Let_def)

lemma resolve_buffered4: "resolveUnknownState (buffered4\<lparr>writeFrontier := 0\<rparr>) 4
   = buffered4\<lparr>writeFrontier := 0, physicalPageState := 0xFF # replicate 63 0\<rparr>"
  by (simp add: buffered4_def norHandle_def newHandle_def resolveUnknownState_def
     resolveLoop_unfold Let_def get_eval set_eval slotGet_def slotSet_def stateOfCode_def
     nextPageNo_def replicate_64 word_le_nat_alt word_less_nat_alt split del: if_split)

lemma createFTL_4: "createFTL buffered4 = formatted4"
  apply (simp add: createFTL_def resolve_buffered4 [unfolded buffered4_def norHandle_def newHandle_def, simplified]
     buffered4_def norHandle_def newHandle_def formatted4_def formattedMTT_def
     callFlashProgram_def callFlashErase_def norProgram_def
     Let_def get_eval set_eval slotGet_def slotSet_def stateOfCode_def 
     word_le_nat_alt word_less_nat_alt split del: if_split)
  done

subsection \<open>Mount: the scan for the master TT\<close>

lemma int_less_uint: "int k < uint (w :: 'a::len word) \<longleftrightarrow> k < unat w"
  by (metis of_nat_unat of_nat_less_iff)

lemma int_eq_uint: "int k = uint (w :: 'a::len word) \<longleftrightarrow> k = unat w"
  by (metis of_nat_unat of_nat_eq_iff)

lemma sint_of_nat16:
  assumes "k < 32768"
  shows "sint (of_nat k :: 16 word) = int k"
proof -
  have "unat (of_nat k :: 16 word) = k"
    using assms by (simp add: unat_of_nat take_bit_nat_eq_self)
  then have u: "unat (of_nat k :: 16 word) < 32768" using assms by simp
  have "int k = uint (of_nat k :: 16 word)"
    using \<open>unat (of_nat k :: 16 word) = k\<close> by (simp only: int_eq_uint)
  then show ?thesis
    using sint_eq_uint16 [OF u] by simp
qed

lemma scanForMTT_fold:
  assumes "unat (physicalPageCount ftl) \<le> 32767"
  shows "k \<le> unat (physicalPageCount ftl) \<Longrightarrow> unat (physicalPageCount ftl) - k < fuel \<Longrightarrow>
    scanForMTT fuel ftl (of_nat k) cs cp
      = Some (fold (scanStep ftl) [k..<unat (physicalPageCount ftl)] (cs, cp))"
proof (induction fuel arbitrary: k cs cp)
  case 0
  then show ?case by simp
next
  case (Suc fuel)
  have sk: "sint (of_nat k :: 16 word) = int k"
    using Suc.prems assms by (intro sint_of_nat16) simp
  show ?case
  proof (cases "k < unat (physicalPageCount ftl)")
    case False
    with Suc.prems have "k = unat (physicalPageCount ftl)" by simp
    then show ?thesis
      using sk by (simp add: int_less_uint)
  next
    case True
    then have lt: "sint (of_nat k :: 16 word) < uint (physicalPageCount ftl)"
      using sk by (simp add: int_less_uint)
    have nxt: "(of_nat k :: 16 word) + 1 = of_nat (Suc k)" by simp
    have l: "[k..<unat (physicalPageCount ftl)] = k # [Suc k..<unat (physicalPageCount ftl)]"
      using True by (simp add: upt_conv_Cons)
    have ih: "scanForMTT fuel ftl (of_nat (Suc k)) cs' cp'
      = Some (fold (scanStep ftl) [Suc k..<unat (physicalPageCount ftl)] (cs', cp'))" for cs' cp'
      using True Suc.prems by (intro Suc.IH) simp_all
    have st: "scanStep ftl k (cs, cp) =
        (if mttHeaderDetected (readHeader ftl (of_nat k)) \<and> hdrSerial (readHeader ftl (of_nat k)) > cs
         then (hdrSerial (readHeader ftl (of_nat k)), of_nat k) else (cs, cp))"
      by (simp add: scanStep_def Let_def)
    show ?thesis
      unfolding l
      using lt by (simp add: nxt ih st Let_def del: of_nat_Suc)
  qed
qed

lemma scanStep_eq: "scanStep ftl j (cs, cp) =
   (if mttCandidate ftl j \<and> pageSerial ftl j > cs then (pageSerial ftl j, of_nat j) else (cs, cp))"
  by (simp add: scanStep_def mttCandidate_def pageSerial_def Let_def)

lemma fold_scan_none:
  assumes "\<forall>j<n. mttCandidate ftl j \<longrightarrow> pageSerial ftl j = 0"
  shows "fold (scanStep ftl) [0..<n] (0, cp) = (0, cp)"
  using assms
proof (induction n)
  case 0
  show ?case by simp
next
  case (Suc n)
  then show ?case by (auto simp add: scanStep_eq)
qed


lemma le32_put32 [simp]: "le32 (put32 d k w) k = w"
  unfolding le32_def put32_def
  apply simp
  apply (rule bit_word_eqI)
  apply (auto simp add: bit_simps)
  subgoal for n by (cases "n < 24") simp_all
  done

lemma le16_put16 [simp]: "le16 (put16 d k w) k = w"
  unfolding le16_def put16_def
  apply simp
  apply (rule bit_word_eqI)
  apply (auto simp add: bit_simps)
  done

lemma le32_cong: "(\<And>i. i < 4 \<Longrightarrow> d (k + i) = e (k + i)) \<Longrightarrow> le32 d k = le32 e k"
proof -
  assume a: "\<And>i. i < 4 \<Longrightarrow> d (k + i) = e (k + i)"
  from a [of 0] a [of 1] a [of 2] a [of 3] show ?thesis
    by (simp add: le32_def)
qed

lemma le16_cong: "(\<And>i. i < 2 \<Longrightarrow> d (k + i) = e (k + i)) \<Longrightarrow> le16 d k = le16 e k"
proof -
  assume a: "\<And>i. i < 2 \<Longrightarrow> d (k + i) = e (k + i)"
  from a [of 0] a [of 1] show ?thesis
    by (simp add: le16_def)
qed

lemma put32_other [simp]: "j < k \<or> k + 4 \<le> j \<Longrightarrow> put32 d k w j = d j"
  by (auto simp add: put32_def)

lemma put16_other [simp]: "j < k \<or> k + 2 \<le> j \<Longrightarrow> put16 d k w j = d j"
  by (auto simp add: put16_def)


lemma cacheStateOnlyE:
  assumes "cacheStateOnly ftl ftl'"
  obtains bufs st b where
    "ftl' = ftl\<lparr>pageBuffer := bufs, physicalPageState := st, physicalPageStateResolved := b\<rparr>"
  using assms unfolding cacheStateOnly_def by blast

lemma cacheStateOnly_refl [simp]: "cacheStateOnly ftl ftl"
  by (simp add: cacheStateOnly_def)

lemma cacheStateOnly_trans: "cacheStateOnly a b \<Longrightarrow> cacheStateOnly b c \<Longrightarrow> cacheStateOnly a c"
  by (elim cacheStateOnlyE) (simp add: cacheStateOnly_def)


lemma stateMapOnly_imp: "stateMapOnly a b \<Longrightarrow> cacheStateOnly a b"
  by (elim stateMapOnlyE) (simp add: cacheStateOnly_def)

lemma cacheStateOnly_set [simp]: "cacheStateOnly a b \<Longrightarrow> cacheStateOnly a (setPhysicalPageState b p s)"
  by (erule cacheStateOnly_trans) (simp add: stateMapOnly_imp)




lemma readHeader_frame:
  "flashRead ftl' = flashRead ftl \<Longrightarrow> device ftl' = device ftl \<Longrightarrow> readHeader ftl' i = readHeader ftl i"
  by (simp add: readHeader_def)

lemma nextPageNo_frame:
  "physicalPageCount ftl' = physicalPageCount ftl \<Longrightarrow> nextPageNo ftl' i = nextPageNo ftl i"
  by (simp add: nextPageNo_def)

lemma loadFTL_none:
  assumes "unat (physicalPageCount ftl) \<le> 32767" "unat (physicalPageCount ftl) < fuel"
    and "\<forall>j<unat (physicalPageCount ftl). mttCandidate ftl j \<longrightarrow> pageSerial ftl j = 0"
  shows "loadFTL fuel ftl = Some (Returns (False, ftl))"
proof -
  have "scanForMTT fuel ftl (of_nat 0) 0 (- 1)
      = Some (fold (scanStep ftl) [0..<unat (physicalPageCount ftl)] (0, - 1))"
    using assms by (intro scanForMTT_fold) simp_all
  also have "\<dots> = Some (0, - 1)"
    using assms(3) by (simp add: fold_scan_none)
  finally show ?thesis
    by (simp add: loadFTL_def)
qed


lemma pageAddrS_of_nat:
  assumes "j < 32768"
  shows "unat (pageAddrS (of_nat j)) = j * 4096"
proof -
  have 1: "sint (of_nat j :: 16 word) = int j" using assms by (rule sint_of_nat16)
  have "pageAddrS (of_nat j) = word_of_int (int j) * 4096"
    unfolding pageAddrS_def scast_eq 1 ..
  also have "\<dots> = of_nat (j * 4096)" by simp
  finally have e: "pageAddrS (of_nat j) = of_nat (j * 4096)" .
  have "unat (of_nat (j * 4096) :: 32 word) = (j * 4096) mod 2 ^ LENGTH(32)"
    by (rule unat_of_nat)
  also have "\<dots> = j * 4096" using assms by simp
  finally show ?thesis unfolding e .
qed

lemma readHeader_nor:
  assumes "flashRead ftl = norRead" "j < 32768"
  shows "readHeader ftl (of_nat j) = device ftl j"
  using assms pageAddrS_of_nat [OF assms(2)]
  by (simp add: readHeader_def norRead_def)

lemma erased_not_candidate:
  assumes "flashRead ftl = norRead" "j < 32768" "device ftl j = (\<lambda>k. 0xff)"
  shows "\<not> mttCandidate ftl j"
  using assms
  by (simp add: mttCandidate_def readHeader_nor mttHeaderDetected_def hdrMagicStart_def le32_def)

lemma buffered4_fields [simp]:
  "flashRead buffered4 = norRead" "device buffered4 = erasedFlash"
  "physicalPageCount buffered4 = 1024"
  by (simp_all add: buffered4_def norHandle_def newHandle_def)

lemma loadFTL_4: "loadFTL 1025 buffered4 = Some (Returns (False, buffered4))"
proof (rule loadFTL_none)
  show "\<forall>j<unat (physicalPageCount buffered4). mttCandidate buffered4 j \<longrightarrow> pageSerial buffered4 j = 0"
    by (auto simp add: erased_not_candidate erasedFlash_def)
qed simp_all

lemma ftlInit_4:
  "ftlInit 1025 norRead norProgram norErase norIsErased erasedFlash 4 = Some (Returns (Some formatted4))"
  using initPageBuffer_4 loadFTL_4 createFTL_4
  by (simp add: ftlInit_def supportedFlashSizes_def norHandle_def)

lemma formatted4_get:
  "getPhysicalPageState formatted4 1 = ERASED" "getPhysicalPageState formatted4 2 = ERASED"
  "getPhysicalPageState formatted4 3 = ERASED" "getPhysicalPageState formatted4 4 = UNKNOWN"
  by (simp_all add: formatted4_def get_eval slotGet_def stateOfCode_def)

lemma norIsErased_page: "dev (unat addr div 4096) = (\<lambda>k. 0xff) \<Longrightarrow> norIsErased dev addr"
  by (simp add: norIsErased_def list_all_iff)

lemma resolve_formatted4:
  "resolveUnknownState formatted4 1 = formatted4\<lparr>physicalPageState := 0x3FD # replicate 63 0\<rparr>"
  by (simp add: formatted4_def resolveUnknownState_def
     resolveLoop_unfold Let_def get_eval set_eval slotGet_def slotSet_def stateOfCode_def
     nextPageNo_def word_le_nat_alt word_less_nat_alt norIsErased_page erasedFlash_def pageAddrU_def
     split del: if_split)

text \<open>
  Counterexample to C7 as stated: on the handle \<open>ftlInit\<close> returns for an erased 4 MiB
  device, a write to sector 8064 (the first sector out of range) is rejected, but the
  state map has changed: page 4 went from UNKNOWN to ERASED.
\<close>

theorem rejected_write_changes_state_map:
  "ftlWriteSector formatted4 8064 1 (replicate 512 0)
     = Returns (False, formatted4\<lparr>physicalPageState := 0x3FD # replicate 63 0\<rparr>)
   \<and> formatted4\<lparr>physicalPageState := 0x3FD # replicate 63 0\<rparr> \<noteq> formatted4"
proof
  show "ftlWriteSector formatted4 8064 1 (replicate 512 0)
     = Returns (False, formatted4\<lparr>physicalPageState := 0x3FD # replicate 63 0\<rparr>)"
    using resolve_formatted4
    by (simp add: ftlWriteSector_def Let_def formatted4_def word_less_nat_alt)
  have "physicalPageState (formatted4\<lparr>physicalPageState := 0x3FD # replicate 63 0\<rparr>)
      \<noteq> physicalPageState formatted4"
    by (simp add: formatted4_def)
  then show "formatted4\<lparr>physicalPageState := 0x3FD # replicate 63 0\<rparr> \<noteq> formatted4"
    by (rule contrapos_nn) simp
qed

theorem invalid_parameters_rejected_witness:
  "ftlInit 1025 norRead norProgram norErase norIsErased erasedFlash 5 = Some (Returns None)
   \<and> ftlReadSector formatted4 8064 = Returns (None, formatted4)
   \<and> (\<exists>ftl'. ftlWriteSector formatted4 8064 1 [] = Returns (False, ftl')
          \<and> stateMapOnly formatted4 ftl'
          \<and> getPhysicalPageState ftl' 1 = getPhysicalPageState formatted4 1)
   \<and> ftlWriteSector (formatted4\<lparr>physicalPageStateResolved := True\<rparr>) 8064 1 []
       = Returns (False, formatted4\<lparr>physicalPageStateResolved := True\<rparr>)"
proof -
  have s: "(5 :: 8 word) \<notin> set supportedFlashSizes"
    by (simp add: supportedFlashSizes_def)
  have u: "usableSectorCount formatted4 = 8064" by (simp add: formatted4_def)
  have r: "(8064 :: 32 word) \<ge> usableSectorCount formatted4" by (simp add: u)
  have w: "(8064 :: 32 word) + 1 > usableSectorCount formatted4"
    by (simp add: u word_less_nat_alt)
  have w': "(8064 :: 32 word) + 1 > usableSectorCount (formatted4\<lparr>physicalPageStateResolved := True\<rparr>)"
    by (simp add: u word_less_nat_alt)
  have k: "getPhysicalPageState formatted4 1 \<noteq> UNKNOWN" by (simp add: formatted4_get)
  from invalid_parameters_rejected
    [where flashSizeInMB = 5 and fuel = 1025 and rf = norRead and pf = norProgram
       and ef = norErase and ief = norIsErased and dev = erasedFlash and sectorNo = 8064
       and ftl = formatted4 and startSectorNo = 8064 and noOfSectors = 1 and buf = "[]"]
    s r w k
  have a: "ftlInit 1025 norRead norProgram norErase norIsErased erasedFlash 5 = Some (Returns None)"
    and b: "ftlReadSector formatted4 8064 = Returns (None, formatted4)"
    and c: "\<exists>ftl'. ftlWriteSector formatted4 8064 1 [] = Returns (False, ftl')
          \<and> stateMapOnly formatted4 ftl'
          \<and> getPhysicalPageState ftl' 1 = getPhysicalPageState formatted4 1"
    by blast+
  from invalid_parameters_rejected
    [where flashSizeInMB = 5 and fuel = 1025 and rf = norRead and pf = norProgram
       and ef = norErase and ief = norIsErased and dev = erasedFlash and sectorNo = 8064
       and ftl = "formatted4\<lparr>physicalPageStateResolved := True\<rparr>"
       and startSectorNo = 8064 and noOfSectors = 1 and buf = "[]"] w'
  have d: "ftlWriteSector (formatted4\<lparr>physicalPageStateResolved := True\<rparr>) 8064 1 []
       = Returns (False, formatted4\<lparr>physicalPageStateResolved := True\<rparr>)"
    by auto
  from a b c d show ?thesis by blast
qed

subsection \<open>Mount authority\<close>

lemma le32_put32_other [simp]: "k + 4 \<le> j \<or> j + 4 \<le> k \<Longrightarrow> le32 (put32 d j w) k = le32 d k"
  by (rule le32_cong) auto

lemma le32_put16_other [simp]: "k + 4 \<le> j \<or> j + 2 \<le> k \<Longrightarrow> le32 (put16 d j w) k = le32 d k"
  by (rule le32_cong) auto

lemma le16_put32_other [simp]: "k + 2 \<le> j \<or> j + 4 \<le> k \<Longrightarrow> le16 (put32 d j w) k = le16 d k"
  by (rule le16_cong) auto

lemma le16_put16_other [simp]: "k + 2 \<le> j \<or> j + 2 \<le> k \<Longrightarrow> le16 (put16 d j w) k = le16 d k"
  by (rule le16_cong) auto




lemma bufferedNor4_fields [simp]:
  "flashRead (bufferedNor4 dev) = norRead" "device (bufferedNor4 dev) = dev"
  "physicalPageCount (bufferedNor4 dev) = 1024"
  by (simp_all add: bufferedNor4_def norHandle_def newHandle_def)




lemma initPageBuffer_fields:
  assumes "initPageBuffer h = Returns ftl"
  shows "cacheOnly h ftl"
proof -
  have "initPageBufferLoop i f = Returns ftl \<Longrightarrow> cacheOnly f ftl" for i and f :: "'a FrFTL"
  proof (induction i f rule: initPageBufferLoop.induct)
    case (1 i f)
    show ?case
    proof (cases "sint i < uint (pageBufferSize f)")
      case False
      with "1.prems" show ?thesis by (simp add: initPageBufferLoop.simps [of i f])
    next
      case True
      show ?thesis
      proof (cases "sint i < 0")
        case neg: True
        with True "1.prems" show ?thesis by (simp add: initPageBufferLoop.simps [of i f])
      next
        case False
        let ?f = "updBuf (nat (sint i)) (\<lambda>b. b\<lparr>logicalPageNo := - 1, physicalPageNo := - 1,
                     lru := i, lock := False, pMode := NONE\<rparr>) f"
        from True False "1.prems" have "initPageBufferLoop (i + 1) ?f = Returns ftl"
          by (simp add: initPageBufferLoop.simps [of i f])
        from "1.IH" [OF True False this] show ?thesis
          by (rule cacheOnly_trans [OF cacheOnly_updBuf])
      qed
    qed
  qed
  from this [of 0 "h\<lparr>pageBuffer := replicate (unat (pageBufferSize h)) mallocPageBuffer\<rparr>"] assms
  have "cacheOnly (h\<lparr>pageBuffer := replicate (unat (pageBufferSize h)) mallocPageBuffer\<rparr>) ftl"
    by (simp add: initPageBuffer_def)
  then show ?thesis
    by (elim cacheOnlyE) (simp add: cacheOnly_def)
qed



lemma byte_and_ff [simp]: "(255 :: 8 word) AND x = x"
proof -
  have "(255 :: 8 word) = - 1" by simp
  then show ?thesis by (simp only: and.left_neutral)
qed




end
